theory Spec2Isabelle
  imports Complex_Main "HOL-Library.Word"
begin

section \<open>Reverse diffusion sampling: the operations of utils/reconstruction.py\<close>

text \<open>
  The embedding follows \<^verbatim>\<open>src/utils/reconstruction.py\<close> statement by statement.

  \<^item> A numpy array or torch tensor is the list of its entries (row-major); its shape is
    abstracted to its length. Arithmetic between a tensor and a scalar is a \<open>map\<close>;
    arithmetic between two tensors is entrywise and needs equal lengths: where the
    shapes differ numpy raises \<open>ValueError\<close> and torch \<open>RuntimeError\<close> (broadcasting
    between differently shaped tensors is not modelled: the noise predictor returns a
    tensor of the shape of its argument).
  \<^item> Floating-point numbers are real numbers: rounding, \<open>inf\<close> and \<open>nan\<close> are outside
    the model. \<open>x / 0\<close> is \<open>0\<close> and \<open>sqrt\<close> of a negative number is negative in HOL,
    where numpy and torch give \<open>inf\<close> or \<open>nan\<close>; the theorems that depend on a quotient
    or a root state the condition under which both agree.
  \<^item> Python integers are \<open>int\<close>; \<open>//\<close> is \<open>div\<close> (both round down).
  \<^item> An exception is a value of \<open>error\<close>, returned as \<open>Inl\<close>.
  \<^item> \<open>torch.randn\<close> reads a random source \<open>rng\<close>: the entry \<open>j\<close> of the \<open>k\<close>-th tensor
    drawn is \<open>rng k j\<close>.
  \<^item> Moving data between devices, \<open>net.eval()\<close>, \<open>torch.no_grad()\<close>, emptying the CUDA
    cache and printing the progress line do not change any value and are left out.
\<close>

type_synonym tensor = "real list"

datatype error =
    IndexError
  | ValueError
  | ZeroDivisionError
  | UnboundLocalError
  | RuntimeError
  | InvalidScheduleError

text \<open>Indexing a sequence of length \<open>n\<close> by a Python integer \<open>i\<close>: the position read
  or written is \<open>i\<close> itself when \<open>0 \<le> i < n\<close>, it is \<open>n + i\<close> when \<open>-n \<le> i < 0\<close> (counting
  from the end), and there is none otherwise.\<close>

definition py_index :: "nat \<Rightarrow> int \<Rightarrow> nat option" where
  "py_index n i =
     (if 0 \<le> i \<and> i < int n then Some (nat i)
      else if - int n \<le> i \<and> i < 0 then Some (nat (int n + i))
      else None)"

text \<open>\<open>xs[i]\<close> and \<open>xs[i] = v\<close>; both raise \<open>IndexError\<close> when \<open>i\<close> is out of range.\<close>

definition getitem :: "'a list \<Rightarrow> int \<Rightarrow> error + 'a" where
  "getitem xs i = (case py_index (length xs) i of None \<Rightarrow> Inl IndexError | Some j \<Rightarrow> Inr (xs ! j))"

definition setitem :: "'a list \<Rightarrow> int \<Rightarrow> 'a \<Rightarrow> error + 'a list" where
  "setitem xs i v =
     (case py_index (length xs) i of None \<Rightarrow> Inl IndexError | Some j \<Rightarrow> Inr (xs[j := v]))"

text \<open>\<open>a - b\<close> on two tensors; \<open>e\<close> is the exception of the library at hand.\<close>

definition tensor_sub :: "error \<Rightarrow> tensor \<Rightarrow> tensor \<Rightarrow> error + tensor" where
  "tensor_sub e a b = (if length a = length b then Inr (map2 (-) a b) else Inl e)"

text \<open>Sequencing: the first exception raised ends the call.\<close>

definition ebind :: "error + 'a \<Rightarrow> ('a \<Rightarrow> error + 'b) \<Rightarrow> error + 'b" where
  "ebind m f = (case m of Inl e \<Rightarrow> Inl e | Inr v \<Rightarrow> f v)"

text \<open>\<open>v.clip(lo, hi)\<close> is \<open>minimum(maximum(v, lo), hi)\<close>.\<close>

definition clip :: "real \<Rightarrow> real \<Rightarrow> real \<Rightarrow> real" where
  "clip lo hi v = min hi (max lo v)"

text \<open>\<open>torch.randn(shape)\<close>: the \<open>k\<close>-th draw, of \<open>n\<close> entries.\<close>

definition randn :: "(nat \<Rightarrow> nat \<Rightarrow> real) \<Rightarrow> nat \<Rightarrow> nat \<Rightarrow> tensor" where
  "randn rng k n = map (rng k) [0..<n]"

subsection \<open>The schedule transform\<close>

text \<open>
  \<^verbatim>\<open>get_alpha_bar\<close> is imported from \<^verbatim>\<open>utils.diffusionDataset\<close>, which is not among the
  sources. Every operation below therefore takes it as its first argument \<open>gab\<close>, and
  what is proved for all \<open>gab\<close> holds for the function of the repository, whatever it
  is. A concrete scenario is evaluated with the instance \<open>get_alpha_bar\<close>.
\<close>

fun cumprod :: "real \<Rightarrow> real list \<Rightarrow> real list" where
  "cumprod acc [] = []"
| "cumprod acc (a # as) = (acc * a) # cumprod (acc * a) as"

text \<open>Modelled from the spec: \<^verbatim>\<open>get_alpha_bar\<close> of \<^verbatim>\<open>utils/diffusionDataset.py\<close> is missing.
  The spec (4.1, 3 and testable property 1): for \<open>T\<close> variances, each in \<open>(0, 1)\<close>, the
  result has length \<open>T + 1\<close>, entry \<open>0\<close> is \<open>1\<close> and entry \<open>t\<close> is the running product of
  \<open>1 - beta[i]\<close> for \<open>i = 1..t\<close>, computed by iterated multiplication; schedule
  \<open>[0.1, 0.2, 0.3]\<close> gives \<open>[1, 0.9, 0.72, 0.504]\<close>; an empty schedule or a variance
  outside \<open>(0, 1)\<close> fails with \<open>InvalidScheduleError\<close>.\<close>

definition get_alpha_bar :: "real list \<Rightarrow> error + real list" where
  "get_alpha_bar variance_schedule =
     (if variance_schedule \<noteq> [] \<and> list_all (\<lambda>b. 0 < b \<and> b < 1) variance_schedule
      then Inr (1 # cumprod 1 (map (\<lambda>b. 1 - b) variance_schedule))
      else Inl InvalidScheduleError)"

subsection \<open>\<open>reconstruct_image_from_noise\<close>\<close>

text \<open>
  \<^verbatim>\<open>alpha_bar = get_alpha_bar(variance_schedule)[t]\<close>
  \<^verbatim>\<open>return (noisy_image - noise*np.sqrt(1-alpha_bar))/np.sqrt(alpha_bar).clip(0, 1)\<close>

  The method call binds tighter than the division: \<open>.clip(0, 1)\<close> applies to
  \<open>np.sqrt(alpha_bar)\<close>, the divisor, and not to the quotient.
\<close>

definition reconstruct_image_from_noise ::
  "(real list \<Rightarrow> error + real list) \<Rightarrow> tensor \<Rightarrow> tensor \<Rightarrow> int \<Rightarrow> real list \<Rightarrow> error + tensor" where
  "reconstruct_image_from_noise gab noisy_image noise t variance_schedule =
     ebind (gab variance_schedule) (\<lambda>alpha_bars.
     ebind (getitem alpha_bars t) (\<lambda>alpha_bar.
     ebind (tensor_sub ValueError noisy_image (map (\<lambda>z. z * sqrt (1 - alpha_bar)) noise)) (\<lambda>d.
     Inr (map (\<lambda>v. v / clip 0 1 (sqrt alpha_bar)) d))))"

subsection \<open>\<open>reconstruct_single_step\<close>\<close>

text \<open>
  The predictor \<open>net\<close> is called once, on the noisy image and \<open>t\<close>; the estimate is the
  expression of \<open>reconstruct_image_from_noise\<close>, and the returned array is
  \<^verbatim>\<open>rec_single_step.clip(0, 1)\<close>.
\<close>

definition reconstruct_single_step ::
  "(real list \<Rightarrow> error + real list) \<Rightarrow> (tensor \<Rightarrow> int \<Rightarrow> tensor) \<Rightarrow> tensor \<Rightarrow> int \<Rightarrow> real list
     \<Rightarrow> error + tensor" where
  "reconstruct_single_step gab net noisy_image t variance_schedule =
     (let pred_noise = net noisy_image t in
      ebind (gab variance_schedule) (\<lambda>alpha_bars.
      ebind (getitem alpha_bars t) (\<lambda>alpha_bar.
      ebind (tensor_sub ValueError noisy_image (map (\<lambda>z. z * sqrt (1 - alpha_bar)) pred_noise))
        (\<lambda>d.
      let rec_single_step = map (\<lambda>v. v / clip 0 1 (sqrt alpha_bar)) d
      in Inr (map (clip 0 1) rec_single_step)))))"

subsection \<open>The arguments and results of the samplers\<close>

text \<open>\<open>sigma\<close> is \<open>None\<close>, a number (no \<open>__getitem__\<close>) or a sequence.
  \<^verbatim>\<open>if sigma is None: sigma = np.zeros(t)\<close>
  \<^verbatim>\<open>if not hasattr(sigma, "__getitem__"): sigma = np.ones(t) * sigma\<close>
  \<open>np.zeros\<close> and \<open>np.ones\<close> raise \<open>ValueError\<close> for a negative size.\<close>

datatype sigma_arg = SigmaNone | SigmaScalar real | SigmaSeq "real list"

definition default_sigma :: "int \<Rightarrow> sigma_arg \<Rightarrow> error + real list" where
  "default_sigma t sigma =
     (case sigma of
        SigmaNone \<Rightarrow> (if t < 0 then Inl ValueError else Inr (replicate (nat t) 0))
      | SigmaScalar s \<Rightarrow>
          (if t < 0 then Inl ValueError else Inr (map (\<lambda>one. one * s) (replicate (nat t) 1)))
      | SigmaSeq ss \<Rightarrow> Inr ss)"

text \<open>A sigma that injects no noise: \<open>None\<close> (the default), the number \<open>0\<close>, or a sequence
  of zeros.\<close>

definition zero_sigma :: "sigma_arg \<Rightarrow> bool" where
  "zero_sigma sigma =
     (case sigma of SigmaNone \<Rightarrow> True | SigmaScalar s \<Rightarrow> s = 0 | SigmaSeq ss \<Rightarrow> list_all (\<lambda>s. s = 0) ss)"

text \<open>\<open>(a*255).astype(np.uint8)\<close>: numpy casts a float to \<open>uint8\<close> by the conversion of C. The
  fraction is dropped (towards zero), \<open>trunc\<close>. A result within the range of a 32-bit signed
  integer keeps its low eight bits, so that a value outside \<open>[0, 256)\<close> wraps modulo 256.
  A result beyond that range is not defined by C: the conversion instruction of x86-64
  gives the integer \<open>-2^31\<close> for it, whose low eight bits are \<open>0\<close>.\<close>

definition trunc :: "real \<Rightarrow> int" where
  "trunc r = (if 0 \<le> r then \<lfloor>r\<rfloor> else \<lceil>r\<rceil>)"

definition astype_uint8 :: "real \<Rightarrow> 8 word" where
  "astype_uint8 r =
     word_of_int (if - (2 ^ 31) \<le> trunc r \<and> trunc r < 2 ^ 31 then trunc r else - (2 ^ 31))"

definition quantize :: "tensor \<Rightarrow> 8 word list" where
  "quantize a = map (\<lambda>v. astype_uint8 (v * 255)) a"

text \<open>\<open>reconstruct\<close> returns the last sample, or the sequence of frames when
  \<open>return_sequences\<close> is set.\<close>

datatype result = Sample tensor | Trajectory "8 word list list"

text \<open>The variables a sampling loop assigns: the sample \<open>x\<close>, \<open>t_tensor\<close> (unbound until
  the first iteration) and the number of tensors drawn from the random source;
  \<open>reconstruct\<close> has the frames \<open>reconstructions\<close> as well.\<close>

record sampler_state =
  x_cur :: tensor
  t_tensor :: "int option"
  n_draws :: nat

record trajectory_state = sampler_state +
  reconstructions :: "8 word list list"

text \<open>\<open>for i in idxs: body\<close>, stopping at the first exception.\<close>

fun for_loop :: "(int \<Rightarrow> 's \<Rightarrow> error + 's) \<Rightarrow> int list \<Rightarrow> 's \<Rightarrow> error + 's" where
  "for_loop body [] st = Inr st"
| "for_loop body (i # idxs) st = ebind (body i st) (for_loop body idxs)"

subsection \<open>\<open>reconstruct\<close>\<close>

text \<open>The update of the sample in the body of the loop (lines 135 to 141); \<open>k\<close> is the
  number of tensors drawn so far:
  \<^verbatim>\<open>ti = i*step_size\<close>
  \<^verbatim>\<open>t_tensor = torch.Tensor([ti]).to(device)\<close>
  \<^verbatim>\<open>pred_noise = net(x, t_tensor)\<close>
  \<^verbatim>\<open>f = alpha_bar[ti]/alpha_bar[ti-step_size]\<close>
  \<^verbatim>\<open>x = (x - (1+overstep)*pred_noise*(1-f)/torch.sqrt(1-alpha_bar[ti]))/torch.sqrt(f) + sigma[ti]*torch.randn(x.shape).to(device)\<close>\<close>

definition strided_update ::
  "(tensor \<Rightarrow> int \<Rightarrow> tensor) \<Rightarrow> real list \<Rightarrow> real list \<Rightarrow> int \<Rightarrow> real
     \<Rightarrow> (nat \<Rightarrow> nat \<Rightarrow> real) \<Rightarrow> nat \<Rightarrow> int \<Rightarrow> tensor \<Rightarrow> error + tensor" where
  "strided_update net alpha_bar sigma step_size overstep rng k i x =
     (let ti = i * step_size;
          pred_noise = net x ti
      in
      ebind (getitem alpha_bar ti) (\<lambda>a_ti.
      ebind (getitem alpha_bar (ti - step_size)) (\<lambda>a_prev.
      let f = a_ti / a_prev in
      ebind (tensor_sub RuntimeError x
               (map (\<lambda>p. (1 + overstep) * p * (1 - f) / sqrt (1 - a_ti)) pred_noise)) (\<lambda>d.
      ebind (getitem sigma ti) (\<lambda>sigma_ti.
      Inr (map2 (+) (map (\<lambda>v. v / sqrt f) d)
             (map (\<lambda>z. sigma_ti * z) (randn rng k (length x)))))))))"

text \<open>The body of the loop (lines 135 to 144): the update, then
  \<^verbatim>\<open>if return_sequences:\<close>
  \<^verbatim>\<open>    reconstructions[t//step_size-i]=(x.detach().cpu().numpy().clip(0, 1)*255).astype(np.uint8)\<close>\<close>

definition reconstruct_body ::
  "(tensor \<Rightarrow> int \<Rightarrow> tensor) \<Rightarrow> real list \<Rightarrow> real list \<Rightarrow> int \<Rightarrow> int \<Rightarrow> real \<Rightarrow> bool
     \<Rightarrow> (nat \<Rightarrow> nat \<Rightarrow> real) \<Rightarrow> int \<Rightarrow> trajectory_state \<Rightarrow> error + trajectory_state" where
  "reconstruct_body net alpha_bar sigma t step_size overstep return_sequences rng i st =
     ebind (strided_update net alpha_bar sigma step_size overstep rng (n_draws st) i (x_cur st)) (\<lambda>x.
     ebind (if return_sequences
            then setitem (reconstructions st) (t div step_size - i) (quantize (map (clip 0 1) x))
            else Inr (reconstructions st)) (\<lambda>recs.
     Inr (st\<lparr>x_cur := x, t_tensor := Some (i * step_size), n_draws := Suc (n_draws st),
              reconstructions := recs\<rparr>)))"

text \<open>The function (lines 115 to 151). \<open>np.zeros\<close> raises \<open>ValueError\<close> for a negative number
  of frames; \<open>reconstructions[0] = ...\<close> raises \<open>IndexError\<close> when there is no frame;
  \<open>del t_tensor\<close>, after the loop, raises \<open>UnboundLocalError\<close> when the loop has not
  assigned \<open>t_tensor\<close>, that is when it has not run.\<close>

definition reconstruct ::
  "(real list \<Rightarrow> error + real list) \<Rightarrow> (tensor \<Rightarrow> int \<Rightarrow> tensor) \<Rightarrow> tensor \<Rightarrow> int \<Rightarrow> real list
     \<Rightarrow> int \<Rightarrow> real \<Rightarrow> sigma_arg \<Rightarrow> bool \<Rightarrow> (nat \<Rightarrow> nat \<Rightarrow> real) \<Rightarrow> error + result" where
  "reconstruct gab net noisy_image t variance_schedule step_size overstep sigma return_sequences rng =
     ebind (default_sigma t sigma) (\<lambda>sigma.
     ebind (gab variance_schedule) (\<lambda>alpha_bar.
     ebind (if step_size = 0 then Inl ZeroDivisionError else Inr (t div step_size)) (\<lambda>n.
     ebind (if n < 0 then Inl ValueError
            else Inr (replicate (nat n) (replicate (length noisy_image) 0))) (\<lambda>zeros.
     ebind (setitem zeros 0 noisy_image) (\<lambda>reconstructions_float.
     let x = concat (take 1 reconstructions_float);
         st0 = \<lparr>x_cur = x, t_tensor = None, n_draws = 0,
                 reconstructions = map quantize reconstructions_float\<rparr>
     in
     ebind (for_loop (reconstruct_body net alpha_bar sigma t step_size overstep return_sequences rng)
              (rev [1..n - 1]) st0) (\<lambda>st.
     case t_tensor st of
       None \<Rightarrow> Inl UnboundLocalError
     | Some _ \<Rightarrow>
         Inr (if return_sequences then Trajectory (reconstructions st)
              else Sample (map (clip 0 1) (x_cur st)))))))))"

subsection \<open>\<open>reconstruct_sequentially\<close>\<close>

text \<open>The update of the sample in the body of the loop (lines 200 to 203):
  \<^verbatim>\<open>t_tensor = torch.Tensor([ti]).to(device)\<close>
  \<^verbatim>\<open>pred_noise = net(x, t_tensor)\<close>
  \<^verbatim>\<open>x = (x - pred_noise*beta[ti]/torch.sqrt(1-alpha_bar[ti]))/torch.sqrt(1-beta[ti]) + sigma[ti]*torch.randn(x.shape).to(device)\<close>\<close>

definition unit_update ::
  "(tensor \<Rightarrow> int \<Rightarrow> tensor) \<Rightarrow> real list \<Rightarrow> real list \<Rightarrow> real list
     \<Rightarrow> (nat \<Rightarrow> nat \<Rightarrow> real) \<Rightarrow> nat \<Rightarrow> int \<Rightarrow> tensor \<Rightarrow> error + tensor" where
  "unit_update net beta alpha_bar sigma rng k ti x =
     (let pred_noise = net x ti in
      ebind (getitem beta ti) (\<lambda>beta_ti.
      ebind (getitem alpha_bar ti) (\<lambda>a_ti.
      ebind (tensor_sub RuntimeError x (map (\<lambda>p. p * beta_ti / sqrt (1 - a_ti)) pred_noise)) (\<lambda>d.
      ebind (getitem sigma ti) (\<lambda>sigma_ti.
      Inr (map2 (+) (map (\<lambda>v. v / sqrt (1 - beta_ti)) d)
             (map (\<lambda>z. sigma_ti * z) (randn rng k (length x)))))))))"

text \<open>The body of the loop: the update and the variables it assigns.\<close>

definition sequential_body ::
  "(tensor \<Rightarrow> int \<Rightarrow> tensor) \<Rightarrow> real list \<Rightarrow> real list \<Rightarrow> real list
     \<Rightarrow> (nat \<Rightarrow> nat \<Rightarrow> real) \<Rightarrow> int \<Rightarrow> sampler_state \<Rightarrow> error + sampler_state" where
  "sequential_body net beta alpha_bar sigma rng ti st =
     ebind (unit_update net beta alpha_bar sigma rng (n_draws st) ti (x_cur st)) (\<lambda>x.
     Inr (st\<lparr>x_cur := x, t_tensor := Some ti, n_draws := Suc (n_draws st)\<rparr>))"

text \<open>The function (lines 183 to 208): the loop is \<^verbatim>\<open>for ti in reversed(range(1, t))\<close>, and
  \<open>del t_tensor\<close> follows it as in \<open>reconstruct\<close>.\<close>

definition reconstruct_sequentially ::
  "(real list \<Rightarrow> error + real list) \<Rightarrow> (tensor \<Rightarrow> int \<Rightarrow> tensor) \<Rightarrow> tensor \<Rightarrow> int \<Rightarrow> real list
     \<Rightarrow> sigma_arg \<Rightarrow> (nat \<Rightarrow> nat \<Rightarrow> real) \<Rightarrow> error + tensor" where
  "reconstruct_sequentially gab net noisy_image t variance_schedule sigma rng =
     ebind (default_sigma t sigma) (\<lambda>sigma.
     let beta = variance_schedule in
     ebind (gab variance_schedule) (\<lambda>alpha_bar.
     let st0 = \<lparr>x_cur = noisy_image, t_tensor = None, n_draws = 0\<rparr> in
     ebind (for_loop (sequential_body net beta alpha_bar sigma rng) (rev [1..t - 1]) st0) (\<lambda>st.
     case t_tensor st of
       None \<Rightarrow> Inl UnboundLocalError
     | Some _ \<Rightarrow> Inr (map (clip 0 1) (x_cur st)))))"

subsection \<open>The arrays behind the values\<close>

text \<open>
  Whether a call writes to an array of its caller is a question about buffers, not values.
  The store below holds the arrays by address, and the operations are embedded a second
  time over it, as programs that read, allocate and write arrays.
  \<^item> A float array is the list of its frames along the first axis; an image, which has no
    frame axis, is one frame, and \<open>image_at\<close> reads all the entries of an array as one
    tensor. The \<open>uint8\<close> arrays are kept apart, in \<open>bytes\<close>. \<open>fresh\<close> is the next unused
    address: the arrays of the caller are the addresses below it.
  \<^item> An expression that builds an array (numpy and torch arithmetic, \<open>np.zeros\<close>, \<open>astype\<close>,
    \<open>clip\<close>) allocates a new array for its value, and assigning it to a name rebinds the
    name. The source has no augmented assignment and calls no in-place method. The
    temporaries inside one expression are not modelled.
  \<^item> \<open>a[k] = v\<close> writes the frame \<open>k\<close> of the array \<open>a\<close>, whichever array that is
    (\<open>store_frame\<close>, \<open>store_byte_frame\<close>). The source has two such assignments, both to
    \<open>reconstructions\<close>.
  \<^item> \<open>torch.Tensor(a)\<close> of a numpy array \<open>a\<close> is a tensor on the memory of \<open>a\<close> when \<open>a\<close> holds
    32-bit floats and the device is the CPU, and a converted copy otherwise: the flag
    \<open>shares\<close> says which. \<open>reshape\<close>, \<open>detach\<close>, \<open>cpu\<close> and \<open>numpy\<close> give views and allocate
    nothing.
  \<^item> The predictor is a function of the values it is given: it does not write to its
    arguments.
  \<^item> \<open>held\<close> records the arrays the name \<open>x\<close> of a sampler has been bound to, the first one
    first. No program reads it: it is there to state where the evolving sample lives.
  \<^item> The schedule and sigma are passed by value; the arithmetic is that of the operations
    above (\<open>strided_update\<close>, \<open>unit_update\<close>, the one-shot estimate).
\<close>

type_synonym addr = nat

record store =
  floats :: "addr \<Rightarrow> tensor list"
  bytes :: "addr \<Rightarrow> 8 word list list"
  fresh :: addr
  held :: "addr list"

type_synonym 'a prog = "store \<Rightarrow> (error + 'a) \<times> store"

text \<open>A program runs on a store and returns a value or an exception, and the store it
  leaves.\<close>

definition pbind :: "'a prog \<Rightarrow> ('a \<Rightarrow> 'b prog) \<Rightarrow> 'b prog" where
  "pbind m f s = (case m s of (Inl e, s') \<Rightarrow> (Inl e, s') | (Inr v, s') \<Rightarrow> f v s')"

definition lift :: "error + 'a \<Rightarrow> 'a prog" where
  "lift r s = (r, s)"

text \<open>Reading an array, as its frames or as one tensor.\<close>

definition load :: "addr \<Rightarrow> tensor list prog" where
  "load a s = (Inr (floats s a), s)"

definition image_at :: "store \<Rightarrow> addr \<Rightarrow> tensor" where
  "image_at s a = concat (floats s a)"

definition load_image :: "addr \<Rightarrow> tensor prog" where
  "load_image a s = (Inr (image_at s a), s)"

text \<open>Allocation: the new array is at the address \<open>fresh\<close>.\<close>

definition new_floats :: "tensor list \<Rightarrow> addr prog" where
  "new_floats v s = (Inr (fresh s), s\<lparr>floats := (floats s)(fresh s := v), fresh := Suc (fresh s)\<rparr>)"

definition new_bytes :: "8 word list list \<Rightarrow> addr prog" where
  "new_bytes v s = (Inr (fresh s), s\<lparr>bytes := (bytes s)(fresh s := v), fresh := Suc (fresh s)\<rparr>)"

text \<open>\<open>a[i] = v\<close>, in place; \<open>IndexError\<close> when the array has no frame \<open>i\<close>.\<close>

definition store_frame :: "addr \<Rightarrow> int \<Rightarrow> tensor \<Rightarrow> unit prog" where
  "store_frame a i v s =
     (case setitem (floats s a) i v of
        Inl e \<Rightarrow> (Inl e, s)
      | Inr fs \<Rightarrow> (Inr (), s\<lparr>floats := (floats s)(a := fs)\<rparr>))"

definition store_byte_frame :: "addr \<Rightarrow> int \<Rightarrow> 8 word list \<Rightarrow> unit prog" where
  "store_byte_frame a i v s =
     (case setitem (bytes s a) i v of
        Inl e \<Rightarrow> (Inl e, s)
      | Inr fs \<Rightarrow> (Inr (), s\<lparr>bytes := (bytes s)(a := fs)\<rparr>))"

text \<open>\<open>x = ...\<close> in a sampler: the array at \<open>a\<close> now holds the evolving sample.\<close>

definition assign_x :: "addr \<Rightarrow> unit prog" where
  "assign_x a s = (Inr (), s\<lparr>held := held s @ [a]\<rparr>)"

text \<open>\<open>torch.Tensor(a)\<close> for the numpy array at \<open>a\<close>.\<close>

definition tensor_of_array :: "bool \<Rightarrow> addr \<Rightarrow> addr prog" where
  "tensor_of_array shares a = (if shares then lift (Inr a) else pbind (load a) new_floats)"

fun pfor_loop :: "(int \<Rightarrow> 'v \<Rightarrow> 'v prog) \<Rightarrow> int list \<Rightarrow> 'v \<Rightarrow> 'v prog" where
  "pfor_loop body [] v = lift (Inr v)"
| "pfor_loop body (i # idxs) v = pbind (body i v) (pfor_loop body idxs)"

text \<open>What a sampler returns is a reference to an array; the variables of a loop hold the
  reference of the current sample.\<close>

datatype result_ref = SampleAt addr | TrajectoryAt addr

record sampler_refs =
  x_ref :: addr
  t_tensor_bound :: "int option"
  drawn :: nat

text \<open>\<open>reconstruct_image_from_noise\<close> reads the two arrays and returns a new one.\<close>

definition reconstruct_image_from_noise_h ::
  "(real list \<Rightarrow> error + real list) \<Rightarrow> addr \<Rightarrow> addr \<Rightarrow> int \<Rightarrow> real list \<Rightarrow> addr prog" where
  "reconstruct_image_from_noise_h gab noisy_image noise t variance_schedule =
     pbind (load_image noisy_image) (\<lambda>image.
     pbind (load_image noise) (\<lambda>z.
     pbind (lift (reconstruct_image_from_noise gab image z t variance_schedule)) (\<lambda>r.
     new_floats [r])))"

text \<open>\<open>reconstruct_single_step\<close>:
  \<^verbatim>\<open>noisy_image_batch = torch.Tensor(noisy_image).reshape(1, *noisy_image.shape)\<close>
  is what the predictor is given; the estimate, the expression of
  \<open>reconstruct_image_from_noise\<close>, reads \<open>noisy_image\<close> itself; \<open>rec_single_step.clip(0, 1)\<close> is
  a new array.\<close>

definition reconstruct_single_step_h ::
  "bool \<Rightarrow> (real list \<Rightarrow> error + real list) \<Rightarrow> (tensor \<Rightarrow> int \<Rightarrow> tensor) \<Rightarrow> addr \<Rightarrow> int \<Rightarrow> real list
     \<Rightarrow> addr prog" where
  "reconstruct_single_step_h shares gab net noisy_image t variance_schedule =
     pbind (tensor_of_array shares noisy_image) (\<lambda>noisy_image_batch.
     pbind (load_image noisy_image_batch) (\<lambda>batch.
     pbind (load_image noisy_image) (\<lambda>image.
     pbind (lift (reconstruct_image_from_noise gab image (net batch t) t variance_schedule))
       (\<lambda>rec_single_step.
     new_floats [map (clip 0 1) rec_single_step]))))"

text \<open>\<open>reconstruct\<close>: \<open>recs_float\<close> is the array of \<open>np.zeros\<close> and \<open>recs\<close> the array of \<open>astype\<close>,
  to which the name \<open>reconstructions\<close> is bound one after the other.
  \<^verbatim>\<open>reconstructions = np.zeros((t//step_size,) + noisy_image.shape)\<close>
  \<^verbatim>\<open>reconstructions[0] = noisy_image.reshape(1, *noisy_image.shape)\<close>
  \<^verbatim>\<open>x = torch.Tensor(reconstructions[:1]).to(device)\<close>
  \<^verbatim>\<open>reconstructions=(reconstructions*255).astype(np.uint8)\<close>
  \<open>np.zeros\<close> gives 64-bit floats, so that \<open>torch.Tensor\<close> converts and \<open>x\<close> is a new array.
  In the body of the loop the update is a new array, bound to \<open>x\<close>, and the frame is
  written into \<open>recs\<close>.\<close>

definition reconstruct_body_h ::
  "(tensor \<Rightarrow> int \<Rightarrow> tensor) \<Rightarrow> real list \<Rightarrow> real list \<Rightarrow> int \<Rightarrow> int \<Rightarrow> real \<Rightarrow> bool
     \<Rightarrow> (nat \<Rightarrow> nat \<Rightarrow> real) \<Rightarrow> addr \<Rightarrow> int \<Rightarrow> sampler_refs \<Rightarrow> sampler_refs prog" where
  "reconstruct_body_h net alpha_bar sigma t step_size overstep return_sequences rng recs i v =
     pbind (load_image (x_ref v)) (\<lambda>x.
     pbind (lift (strided_update net alpha_bar sigma step_size overstep rng (drawn v) i x)) (\<lambda>x'.
     pbind (new_floats [x']) (\<lambda>xr.
     pbind (assign_x xr) (\<lambda>_.
     pbind (if return_sequences
            then store_byte_frame recs (t div step_size - i) (quantize (map (clip 0 1) x'))
            else lift (Inr ())) (\<lambda>_.
     lift (Inr \<lparr>x_ref = xr, t_tensor_bound = Some (i * step_size), drawn = Suc (drawn v)\<rparr>))))))"

definition reconstruct_h ::
  "(real list \<Rightarrow> error + real list) \<Rightarrow> (tensor \<Rightarrow> int \<Rightarrow> tensor) \<Rightarrow> addr \<Rightarrow> int \<Rightarrow> real list
     \<Rightarrow> int \<Rightarrow> real \<Rightarrow> sigma_arg \<Rightarrow> bool \<Rightarrow> (nat \<Rightarrow> nat \<Rightarrow> real) \<Rightarrow> result_ref prog" where
  "reconstruct_h gab net noisy_image t variance_schedule step_size overstep sigma return_sequences rng =
     pbind (lift (default_sigma t sigma)) (\<lambda>sigma.
     pbind (lift (gab variance_schedule)) (\<lambda>alpha_bar.
     pbind (lift (if step_size = 0 then Inl ZeroDivisionError else Inr (t div step_size))) (\<lambda>n.
     pbind (load_image noisy_image) (\<lambda>image.
     pbind (if n < 0 then lift (Inl ValueError)
            else new_floats (replicate (nat n) (replicate (length image) 0))) (\<lambda>recs_float.
     pbind (store_frame recs_float 0 image) (\<lambda>_.
     pbind (load recs_float) (\<lambda>frames.
     pbind (new_floats (take 1 frames)) (\<lambda>x.
     pbind (assign_x x) (\<lambda>_.
     pbind (new_bytes (map quantize frames)) (\<lambda>recs.
     pbind (pfor_loop
              (reconstruct_body_h net alpha_bar sigma t step_size overstep return_sequences rng recs)
              (rev [1..n - 1]) \<lparr>x_ref = x, t_tensor_bound = None, drawn = 0\<rparr>) (\<lambda>v.
     (case t_tensor_bound v of
        None \<Rightarrow> lift (Inl UnboundLocalError)
      | Some _ \<Rightarrow>
          (if return_sequences then lift (Inr (TrajectoryAt recs))
           else pbind (load_image (x_ref v)) (\<lambda>xv.
                pbind (new_floats [map (clip 0 1) xv]) (\<lambda>r. lift (Inr (SampleAt r)))))))))))))))))"

text \<open>\<open>reconstruct_sequentially\<close>:
  \<^verbatim>\<open>x = torch.Tensor(noisy_image.reshape(1, *noisy_image.shape)).to(device)\<close>
  is the tensor of the input array, which shares its memory or not.\<close>

definition sequential_body_h ::
  "(tensor \<Rightarrow> int \<Rightarrow> tensor) \<Rightarrow> real list \<Rightarrow> real list \<Rightarrow> real list
     \<Rightarrow> (nat \<Rightarrow> nat \<Rightarrow> real) \<Rightarrow> int \<Rightarrow> sampler_refs \<Rightarrow> sampler_refs prog" where
  "sequential_body_h net beta alpha_bar sigma rng ti v =
     pbind (load_image (x_ref v)) (\<lambda>x.
     pbind (lift (unit_update net beta alpha_bar sigma rng (drawn v) ti x)) (\<lambda>x'.
     pbind (new_floats [x']) (\<lambda>xr.
     pbind (assign_x xr) (\<lambda>_.
     lift (Inr \<lparr>x_ref = xr, t_tensor_bound = Some ti, drawn = Suc (drawn v)\<rparr>)))))"

definition reconstruct_sequentially_h ::
  "bool \<Rightarrow> (real list \<Rightarrow> error + real list) \<Rightarrow> (tensor \<Rightarrow> int \<Rightarrow> tensor) \<Rightarrow> addr \<Rightarrow> int \<Rightarrow> real list
     \<Rightarrow> sigma_arg \<Rightarrow> (nat \<Rightarrow> nat \<Rightarrow> real) \<Rightarrow> addr prog" where
  "reconstruct_sequentially_h shares gab net noisy_image t variance_schedule sigma rng =
     pbind (lift (default_sigma t sigma)) (\<lambda>sigma.
     pbind (lift (gab variance_schedule)) (\<lambda>alpha_bar.
     pbind (tensor_of_array shares noisy_image) (\<lambda>x.
     pbind (assign_x x) (\<lambda>_.
     pbind (pfor_loop (sequential_body_h net variance_schedule alpha_bar sigma rng) (rev [1..t - 1])
              \<lparr>x_ref = x, t_tensor_bound = None, drawn = 0\<rparr>) (\<lambda>v.
     (case t_tensor_bound v of
        None \<Rightarrow> lift (Inl UnboundLocalError)
      | Some _ \<Rightarrow> pbind (load_image (x_ref v)) (\<lambda>xv. new_floats [map (clip 0 1) xv])))))))"

text \<open>The value behind a returned reference, and the loop variables of the first embedding
  read off the store.\<close>

fun result_at :: "store \<Rightarrow> result_ref \<Rightarrow> result" where
  "result_at s (SampleAt a) = Sample (image_at s a)"
| "result_at s (TrajectoryAt a) = Trajectory (bytes s a)"

definition same_state :: "addr \<Rightarrow> sampler_refs \<Rightarrow> store \<Rightarrow> trajectory_state \<Rightarrow> bool" where
  "same_state recs v s st \<longleftrightarrow>
     x_cur st = image_at s (x_ref v) \<and> t_tensor st = t_tensor_bound v \<and> n_draws st = drawn v \<and>
     reconstructions st = bytes s recs"

definition same_sample :: "sampler_refs \<Rightarrow> store \<Rightarrow> sampler_state \<Rightarrow> bool" where
  "same_sample v s st \<longleftrightarrow>
     x_cur st = image_at s (x_ref v) \<and> t_tensor st = t_tensor_bound v \<and> n_draws st = drawn v"

text \<open>\<open>frame s0 s\<close>: every array that exists in \<open>s0\<close> has the same contents in \<open>s\<close>.
  \<open>framed s0 P s\<close>: moreover the arrays that have held the sample exist and satisfy \<open>P\<close>.
  \<open>allocated_since s s' a\<close>: the array at \<open>a\<close> exists in \<open>s'\<close> and did not in \<open>s\<close>.
  \<open>keeps I m Q\<close>: run from a store that satisfies \<open>I\<close>, the program \<open>m\<close> leaves one that does,
  whether it returns or raises, and a value it returns satisfies \<open>Q\<close>.\<close>

definition frame :: "store \<Rightarrow> store \<Rightarrow> bool" where
  "frame s0 s \<longleftrightarrow>
     fresh s0 \<le> fresh s \<and>
     list_all (\<lambda>a. floats s a = floats s0 a \<and> bytes s a = bytes s0 a) [0..<fresh s0]"

definition framed :: "store \<Rightarrow> (addr list \<Rightarrow> bool) \<Rightarrow> store \<Rightarrow> bool" where
  "framed s0 P s \<longleftrightarrow> frame s0 s \<and> P (held s) \<and> list_all (\<lambda>a. a < fresh s) (held s)"

definition allocated_since :: "store \<Rightarrow> store \<Rightarrow> addr \<Rightarrow> bool" where
  "allocated_since s s' a \<longleftrightarrow> fresh s \<le> a \<and> a < fresh s'"

definition keeps :: "(store \<Rightarrow> bool) \<Rightarrow> 'a prog \<Rightarrow> ('a \<Rightarrow> bool) \<Rightarrow> bool" where
  "keeps I m Q \<longleftrightarrow> (\<forall>s. I s \<longrightarrow> I (snd (m s)) \<and> (\<forall>v. fst (m s) = Inr v \<longrightarrow> Q v))"

section \<open>Basic facts\<close>

lemma ebind_Inr [simp]: "ebind (Inr v) f = f v"
  by (simp add: ebind_def)

lemma ebind_Inl [simp]: "ebind (Inl e) f = Inl e"
  by (simp add: ebind_def)

lemma ebind_eq_Inr: "ebind m f = Inr y \<longleftrightarrow> (\<exists>v. m = Inr v \<and> f v = Inr y)"
  by (cases m) simp_all

lemma getitem_nonneg: "0 \<le> i \<Longrightarrow> nat i < length xs \<Longrightarrow> getitem xs i = Inr (xs ! nat i)"
  by (simp add: getitem_def py_index_def)

lemma clip_range: "0 \<le> clip 0 1 v \<and> clip 0 1 v \<le> 1"
  by (simp add: clip_def)

lemma clip_id: "lo \<le> v \<Longrightarrow> v \<le> hi \<Longrightarrow> clip lo hi v = v"
  by (simp add: clip_def)

lemma sqrt_quarter: "sqrt (1 / 4) = 1 / 2"
  by (simp add: real_sqrt_divide)

lemma for_loop_cong:
  "(\<And>i st. i \<in> set idxs \<Longrightarrow> body i st = body' i st) \<Longrightarrow> for_loop body idxs st = for_loop body' idxs st"
proof (induction idxs arbitrary: st)
  case Nil
  then show ?case by simp
next
  case (Cons i idxs)
  have "for_loop body idxs = for_loop body' idxs"
    using Cons by (intro ext) simp
  with Cons.prems show ?case by simp
qed

lemma first_frame: "0 < n \<Longrightarrow> concat (take (Suc 0) ((replicate n z)[0 := x])) = x"
  by (cases n) simp_all

subsection \<open>The modelled schedule transform\<close>

lemma length_cumprod [simp]: "length (cumprod acc as) = length as"
  by (induction as arbitrary: acc) simp_all

lemma cumprod_range:
  "0 < acc \<Longrightarrow> acc \<le> 1 \<Longrightarrow> list_all (\<lambda>a. 0 < a \<and> a \<le> 1) as
     \<Longrightarrow> list_all (\<lambda>p. 0 < p \<and> p \<le> 1) (cumprod acc as)"
proof (induction as arbitrary: acc)
  case Nil
  then show ?case by simp
next
  case (Cons a as)
  then have a: "0 < a" "a \<le> 1" and rest: "list_all (\<lambda>a. 0 < a \<and> a \<le> 1) as"
    by simp_all
  have pos: "0 < acc * a"
    using Cons.prems(1) a(1) by simp
  have le: "acc * a \<le> 1"
    using Cons.prems(1,2) a by (simp add: mult_le_one)
  from Cons.IH [OF pos le rest] pos le show ?case
    by simp
qed

lemma get_alpha_bar_example:
  "get_alpha_bar [1 / 10, 2 / 10, 3 / 10] = Inr [1, 9 / 10, 72 / 100, 504 / 1000]"
  by (simp add: get_alpha_bar_def)

lemma get_alpha_bar_length: "get_alpha_bar vs = Inr ab \<Longrightarrow> length ab = Suc (length vs)"
  by (auto simp: get_alpha_bar_def split: if_splits)

lemma get_alpha_bar_range:
  assumes "get_alpha_bar vs = Inr ab" and "i < length ab"
  shows "0 < ab ! i \<and> ab ! i \<le> 1"
proof -
  from assms(1) have ab: "ab = 1 # cumprod 1 (map (\<lambda>b. 1 - b) vs)"
    and valid: "list_all (\<lambda>b. 0 < b \<and> b < 1) vs"
    by (auto simp: get_alpha_bar_def split: if_splits)
  from valid have "list_all (\<lambda>a. 0 < a \<and> a \<le> 1) (map (\<lambda>b. 1 - b) vs)"
    by (induction vs) simp_all
  then have "list_all (\<lambda>p. 0 < p \<and> p \<le> (1::real)) (cumprod 1 (map (\<lambda>b. 1 - b) vs))"
    by (intro cumprod_range) simp_all
  then have "list_all (\<lambda>p. 0 < p \<and> p \<le> (1::real)) ab"
    by (simp add: ab)
  with assms(2) show ?thesis
    by (simp add: list_all_length)
qed

lemma cumprod_step:
  "i < length as \<Longrightarrow> (acc # cumprod acc as) ! Suc i = (acc # cumprod acc as) ! i * as ! i"
proof (induction as arbitrary: acc i)
  case Nil
  then show ?case by simp
next
  case (Cons a as)
  show ?case
  proof (cases i)
    case 0
    then show ?thesis by simp
  next
    case (Suc j)
    with Cons.prems have "j < length as" by simp
    from Cons.IH [OF this, of "acc * a"] Suc show ?thesis by simp
  qed
qed

text \<open>The invariant of the data model, \<open>alpha_bar[t] = alpha_bar[t - 1] * (1 - beta[t])\<close> with
  \<open>beta[1]\<close> the first entry of the schedule, which is \<open>variance_schedule[0]\<close>.\<close>

lemma get_alpha_bar_step:
  assumes "get_alpha_bar vs = Inr ab" and "i < length vs"
  shows "ab ! Suc i = ab ! i * (1 - vs ! i)"
proof -
  from assms(1) have ab: "ab = 1 # cumprod 1 (map (\<lambda>b. 1 - b) vs)"
    by (auto simp: get_alpha_bar_def split: if_splits)
  from assms(2) show ?thesis
    unfolding ab using cumprod_step [of i "map (\<lambda>b. 1 - b) vs" 1] by simp
qed

text \<open>The same equation with the entry \<open>variance_schedule[ti]\<close> instead holds where two
  neighbouring entries of the schedule are equal, and only there.\<close>

lemma get_alpha_bar_unit_condition:
  assumes "get_alpha_bar vs = Inr ab" and "1 \<le> ti" and "nat ti < length vs"
  shows "ab ! nat ti = ab ! nat (ti - 1) * (1 - vs ! nat ti) \<longleftrightarrow> vs ! nat ti = vs ! nat (ti - 1)"
proof -
  from assms(2) have suc: "nat ti = Suc (nat (ti - 1))"
    by simp
  with assms(3) have "nat (ti - 1) < length vs"
    by simp
  from get_alpha_bar_step [OF assms(1) this] suc
  have step: "ab ! nat ti = ab ! nat (ti - 1) * (1 - vs ! nat (ti - 1))"
    by simp
  from assms(1,3) have "nat (ti - 1) < length ab"
    by (simp add: get_alpha_bar_length suc)
  from get_alpha_bar_range [OF assms(1) this] have "ab ! nat (ti - 1) \<noteq> 0"
    by simp
  then show ?thesis
    by (auto simp: step)
qed

lemma get_alpha_bar_three_quarters: "get_alpha_bar [3 / 4] = Inr [1, 1 / 4]"
  by (simp add: get_alpha_bar_def)

section \<open>The one-shot reconstruction inverts the forward noising\<close>

text \<open>
  C5. For a timestep \<open>t\<close> of the schedule whose retained-signal coefficient
  \<open>alpha_bar[t]\<close> lies in \<open>(0, 1]\<close> (the data model's invariant; it holds for the modelled
  \<open>get_alpha_bar\<close> by \<open>get_alpha_bar_range\<close>), every clean sample \<open>x0\<close> and every noise
  tensor \<open>z\<close> of its shape: \<open>reconstruct_image_from_noise\<close>, applied to
  \<open>sqrt(alpha_bar[t])*x0 + sqrt(1 - alpha_bar[t])*z\<close> and the same \<open>z\<close>, returns \<open>x0\<close>
  exactly, in exact arithmetic. The sample need not lie in \<open>[0, 1]\<close>: the function does
  not clamp its result.
\<close>

theorem reconstruct_image_from_noise_roundtrip:
  assumes gab: "gab vs = Inr ab"
    and t: "0 \<le> t" "nat t < length ab"
    and a: "0 < ab ! nat t" "ab ! nat t \<le> 1"
    and len: "length z = length x0"
  shows "reconstruct_image_from_noise gab
           (map2 (\<lambda>v n. sqrt (ab ! nat t) * v + sqrt (1 - ab ! nat t) * n) x0 z) z t vs = Inr x0"
proof -
  define a where "a = ab ! nat t"
  have sq: "0 < sqrt a" "sqrt a \<le> 1"
    using a by (simp_all add: a_def)
  then have cl: "clip 0 1 (sqrt a) = sqrt a"
    by (simp add: clip_id)
  have "map (\<lambda>v. v / sqrt a)
          (map2 (-) (map2 (\<lambda>v n. sqrt a * v + sqrt (1 - a) * n) x0 z)
             (map (\<lambda>n. n * sqrt (1 - a)) z)) = x0"
    using len sq(1) by (intro nth_equalityI) simp_all
  then show ?thesis
    using gab t len cl
    by (simp add: reconstruct_image_from_noise_def getitem_nonneg tensor_sub_def a_def)
qed

theorem reconstruct_image_from_noise_roundtrip_witness:
  "get_alpha_bar [3 / 4] = Inr [1, 1 / 4] \<and>
   reconstruct_image_from_noise get_alpha_bar
     [sqrt (1 / 4) * (1 / 2) + sqrt (1 - 1 / 4) * 1] [1] 1 [3 / 4] = Inr [1 / 2]"
  using reconstruct_image_from_noise_roundtrip
    [of get_alpha_bar "[3 / 4]" "[1, 1 / 4]" 1 "[1]" "[1 / 2]"]
  by (simp add: get_alpha_bar_three_quarters)

section \<open>Clamping of the returned sample\<close>

text \<open>
  \<open>reconstruct_single_step\<close>, \<open>reconstruct\<close> (when it returns a sample) and
  \<open>reconstruct_sequentially\<close> end with \<open>.clip(0, 1)\<close> on the returned array: every entry
  of the result lies in \<open>[0, 1]\<close>.
\<close>

lemma reconstruct_single_step_clamped:
  "reconstruct_single_step gab net noisy_image t vs = Inr y \<Longrightarrow> list_all (\<lambda>v. 0 \<le> v \<and> v \<le> 1) y"
  by (auto simp: reconstruct_single_step_def Let_def ebind_eq_Inr list_all_iff clip_def)

lemma reconstruct_clamped:
  "reconstruct gab net noisy_image t vs step_size overstep sigma return_sequences rng = Inr (Sample y)
     \<Longrightarrow> list_all (\<lambda>v. 0 \<le> v \<and> v \<le> 1) y"
  by (auto simp: reconstruct_def Let_def ebind_eq_Inr list_all_iff clip_def
      split: option.splits if_splits)

lemma reconstruct_sequentially_clamped:
  "reconstruct_sequentially gab net noisy_image t vs sigma rng = Inr y
     \<Longrightarrow> list_all (\<lambda>v. 0 \<le> v \<and> v \<le> 1) y"
  by (auto simp: reconstruct_sequentially_def Let_def ebind_eq_Inr list_all_iff clip_def
      split: option.splits)

text \<open>
  C4. The claim that every reconstruction operation returns a sample within \<open>[0, 1]\<close>
  fails for \<open>reconstruct_image_from_noise\<close>: its \<open>.clip(0, 1)\<close> is applied to the
  divisor \<open>np.sqrt(alpha_bar)\<close> only. With the schedule \<open>[0.75]\<close> (\<open>alpha_bar[1] = 0.25\<close>),
  the noisy image \<open>[1]\<close>, the noise \<open>[0]\<close> and \<open>t = 1\<close> it returns \<open>[2]\<close>.
\<close>

theorem reconstruct_image_from_noise_unclamped:
  "reconstruct_image_from_noise get_alpha_bar [1] [0] 1 [3 / 4] = Inr [2]"
  by (simp add: reconstruct_image_from_noise_def get_alpha_bar_three_quarters getitem_def
      py_index_def tensor_sub_def clip_def sqrt_quarter)

section \<open>The loops start one step below the start timestep\<close>

text \<open>
  \<open>reconstruct\<close> iterates over \<open>reversed(range(1, t//step_size))\<close> and
  \<open>reconstruct_sequentially\<close> over \<open>reversed(range(1, t))\<close>: the first timestep visited is
  \<open>t - step_size\<close> (for a \<open>t\<close> that is a multiple of \<open>step_size\<close>), never \<open>t\<close> itself. When
  \<open>step_size = t\<close> the loop does not run at all, \<open>t_tensor\<close> is never assigned and
  \<open>del t_tensor\<close> raises.
\<close>

lemma reconstruct_no_iteration:
  assumes "gab vs = Inr ab" and "1 \<le> t"
  shows "reconstruct gab net noisy_image t vs t overstep sigma return_sequences rng = Inl UnboundLocalError"
proof -
  from assms(2) obtain sg where sg: "default_sigma t sigma = Inr sg"
    by (cases sigma) (simp_all add: default_sigma_def)
  from assms(2) have n: "t div t = 1" "t \<noteq> 0"
    by simp_all
  show ?thesis
    by (simp add: reconstruct_def sg assms(1) n setitem_def py_index_def)
qed

text \<open>
  C2. The claim that \<open>reconstruct\<close> with \<open>step_size = t\<close> returns the estimate of
  \<open>reconstruct_single_step\<close> fails: at the schedule \<open>[0.75]\<close>, the noisy image \<open>[0.25]\<close>,
  \<open>t = step_size = 1\<close> and a predictor that returns zeros, \<open>reconstruct\<close> raises
  \<open>UnboundLocalError\<close>, while \<open>reconstruct_single_step\<close> returns \<open>[0.5]\<close>.
\<close>

theorem reconstruct_single_step_mode_raises:
  "reconstruct get_alpha_bar (\<lambda>x ti. map (\<lambda>_. 0) x) [1 / 4] 1 [3 / 4] 1 overstep SigmaNone False rng
     = Inl UnboundLocalError \<and>
   reconstruct_single_step get_alpha_bar (\<lambda>x ti. map (\<lambda>_. 0) x) [1 / 4] 1 [3 / 4] = Inr [1 / 2]"
proof
  show "reconstruct get_alpha_bar (\<lambda>x ti. map (\<lambda>_. 0) x) [1 / 4] 1 [3 / 4] 1 overstep SigmaNone False rng
     = Inl UnboundLocalError"
    using reconstruct_no_iteration [of get_alpha_bar "[3 / 4]" "[1, 1 / 4]" 1]
    by (simp add: get_alpha_bar_three_quarters)
  show "reconstruct_single_step get_alpha_bar (\<lambda>x ti. map (\<lambda>_. 0) x) [1 / 4] 1 [3 / 4] = Inr [1 / 2]"
    by (simp add: reconstruct_single_step_def get_alpha_bar_three_quarters getitem_def
      py_index_def tensor_sub_def clip_def sqrt_quarter)
qed

subsection \<open>The scenario of stride 2 on ten steps\<close>

lemma reconstruct_body_zero_net:
  assumes "getitem ab (i * s) = Inr a" and "getitem ab (i * s - s) = Inr a'"
    and "getitem sigma (i * s) = Inr 0"
  shows "reconstruct_body (\<lambda>x ti. map (\<lambda>_. 0) x) ab sigma t s ov False rng i st =
           Inr (st\<lparr>x_cur := map (\<lambda>v. v / sqrt (a / a')) (x_cur st), t_tensor := Some (i * s),
                   n_draws := Suc (n_draws st)\<rparr>)"
proof -
  let ?x = "x_cur st"
  have d: "tensor_sub RuntimeError ?x
             (map (\<lambda>p. (1 + ov) * p * (1 - a / a') / sqrt (1 - a)) (map (\<lambda>_. 0) ?x)) = Inr ?x"
    unfolding tensor_sub_def by (simp add: comp_def) (rule nth_equalityI, simp_all)
  have n: "map2 (+) (map (\<lambda>v. v / sqrt (a / a')) ?x)
             (map (\<lambda>z. 0 * z) (randn rng (n_draws st) (length ?x)))
           = map (\<lambda>v. v / sqrt (a / a')) ?x"
    by (rule nth_equalityI) (simp_all add: randn_def)
  show ?thesis
    unfolding reconstruct_body_def strided_update_def Let_def
    by (simp only: assms d n ebind_Inr if_False) simp
qed

lemma rep10: "replicate 10 x = [x, x, x, x, x, x, x, x, x, x]"
  by (simp add: numeral_eq_Suc)

lemma get_alpha_bar_hundredths:
  "get_alpha_bar (replicate 10 (1 / 100)) =
     Inr [1, 99 / 100, 9801 / 10000, 970299 / 1000000, 96059601 / 100000000,
          9509900499 / 10000000000, 941480149401 / 1000000000000,
          93206534790699 / 100000000000000, 9227446944279201 / 10000000000000000,
          913517247483640899 / 1000000000000000000,
          90438207500880449001 / 100000000000000000000]"
  by (simp add: rep10 get_alpha_bar_def)

lemma sqrt_9801: "sqrt (9801 / 10000) = 99 / 100"
  by (rule real_sqrt_unique) (simp_all add: power2_eq_square)

lemma sqrt_alpha_bar_8: "sqrt (9227446944279201 / 10000000000000000) = 96059601 / 100000000"
  by (rule real_sqrt_unique) (simp_all add: power2_eq_square)

lemma sqrt_alpha_bar_10: "sqrt (90438207500880449001 / 100000000000000000000) = 9509900499 / 10000000000"
  by (rule real_sqrt_unique) (simp_all add: power2_eq_square)

text \<open>With a predictor that returns zeros, the four iterations (timesteps 8, 6, 4, 2) each
  divide the sample by \<open>sqrt(alpha_bar[ti]/alpha_bar[ti - 2]) = 0.99\<close>: the sample returned
  is the input times \<open>1/sqrt(alpha_bar[8])\<close>, clamped.\<close>

lemma reconstruct_stride2_zero_noise:
  "reconstruct get_alpha_bar (\<lambda>x ti. map (\<lambda>_. 0) x) noisy_image 10 (replicate 10 (1 / 100)) 2 overstep
     SigmaNone False rng
   = Inr (Sample (map (\<lambda>v. clip 0 1 (v * (1 / sqrt (9227446944279201 / 10000000000000000)))) noisy_image))"
proof -
  let ?ab = "[1, 99 / 100, 9801 / 10000, 970299 / 1000000, 96059601 / 100000000,
          9509900499 / 10000000000, 941480149401 / 1000000000000,
          93206534790699 / 100000000000000, 9227446944279201 / 10000000000000000,
          913517247483640899 / 1000000000000000000,
          90438207500880449001 / 100000000000000000000 :: real]"
  let ?body = "reconstruct_body (\<lambda>x ti. map (\<lambda>_. 0) x) ?ab (replicate 10 0) 10 2 overstep False rng"
  have g: "getitem ?ab 8 = Inr (9227446944279201 / 10000000000000000)"
    "getitem ?ab 6 = Inr (941480149401 / 1000000000000)"
    "getitem ?ab 4 = Inr (96059601 / 100000000)"
    "getitem ?ab 2 = Inr (9801 / 10000)"
    "getitem ?ab 0 = Inr 1"
    and z: "getitem (replicate 10 (0::real)) 8 = Inr 0" "getitem (replicate 10 (0::real)) 6 = Inr 0"
    "getitem (replicate 10 (0::real)) 4 = Inr 0" "getitem (replicate 10 (0::real)) 2 = Inr 0"
    by (simp_all add: getitem_def py_index_def)
  have s4: "?body 4 st = Inr (st\<lparr>x_cur := map (\<lambda>v. v / (99 / 100)) (x_cur st),
      t_tensor := Some 8, n_draws := Suc (n_draws st)\<rparr>)" for st
    using reconstruct_body_zero_net [of ?ab 4 2 "9227446944279201 / 10000000000000000" "941480149401 / 1000000000000" "replicate 10 0" 10 overstep rng st] g z
    by (simp add: sqrt_9801)
  have s3: "?body 3 st = Inr (st\<lparr>x_cur := map (\<lambda>v. v / (99 / 100)) (x_cur st),
      t_tensor := Some 6, n_draws := Suc (n_draws st)\<rparr>)" for st
    using reconstruct_body_zero_net [of ?ab 3 2 "941480149401 / 1000000000000" "96059601 / 100000000" "replicate 10 0" 10 overstep rng st] g z
    by (simp add: sqrt_9801)
  have s2: "?body 2 st = Inr (st\<lparr>x_cur := map (\<lambda>v. v / (99 / 100)) (x_cur st),
      t_tensor := Some 4, n_draws := Suc (n_draws st)\<rparr>)" for st
    using reconstruct_body_zero_net [of ?ab 2 2 "96059601 / 100000000" "9801 / 10000" "replicate 10 0" 10 overstep rng st] g z
    by (simp add: sqrt_9801)
  have s1: "?body 1 st = Inr (st\<lparr>x_cur := map (\<lambda>v. v / (99 / 100)) (x_cur st),
      t_tensor := Some 2, n_draws := Suc (n_draws st)\<rparr>)" for st
    using reconstruct_body_zero_net [of ?ab 1 2 "9801 / 10000" "1" "replicate 10 0" 10 overstep rng st] g z
    by (simp add: sqrt_9801)
  have idxs: "rev [1..(4::int)] = [4, 3, 2, 1]"
    by (simp add: upto.simps)
  show ?thesis
    by (simp add: reconstruct_def default_sigma_def get_alpha_bar_hundredths setitem_def py_index_def
        idxs s4 s3 s2 s1 first_frame sqrt_alpha_bar_8 comp_def mult.commute)
qed

text \<open>
  C1. The claim that the scenario \<open>beta = [0.01]*10\<close>, \<open>t = 10\<close>, \<open>step_size = 2\<close>, zero
  sigma and a zero predictor returns the input times \<open>1/sqrt(alpha_bar[10])\<close>, clamped,
  fails: for the noisy sample \<open>[0.5]\<close> the result is \<open>0.5/sqrt(alpha_bar[8])\<close>, which is not
  \<open>0.5/sqrt(alpha_bar[10])\<close>. The step from timestep 10 to timestep 8 is never taken.
\<close>

theorem reconstruct_stride2_scenario:
  "\<exists>ab. get_alpha_bar (replicate 10 (1 / 100)) = Inr ab \<and>
     reconstruct get_alpha_bar (\<lambda>x ti. map (\<lambda>_. 0) x) [1 / 2] 10 (replicate 10 (1 / 100)) 2 overstep
       SigmaNone False rng = Inr (Sample [clip 0 1 (1 / 2 * (1 / sqrt (ab ! 8)))]) \<and>
     reconstruct get_alpha_bar (\<lambda>x ti. map (\<lambda>_. 0) x) [1 / 2] 10 (replicate 10 (1 / 100)) 2 overstep
       SigmaNone False rng \<noteq> Inr (Sample [clip 0 1 (1 / 2 * (1 / sqrt (ab ! 10)))])"
  using reconstruct_stride2_zero_noise [of "[1 / 2]" overstep rng]
  by (simp add: get_alpha_bar_hundredths sqrt_alpha_bar_8 sqrt_alpha_bar_10 clip_def)

subsection \<open>The sequential sampler\<close>

text \<open>The predictor is consulted at the timesteps \<open>1 \<le> ti < t\<close> only: two predictors that
  agree there give the same result.\<close>

lemma sequential_body_net_cong:
  "net (x_cur st) ti = net' (x_cur st) ti
     \<Longrightarrow> sequential_body net beta ab sigma rng ti st = sequential_body net' beta ab sigma rng ti st"
  by (simp add: sequential_body_def unit_update_def)

lemma reconstruct_sequentially_skips_start:
  assumes "\<And>x ti. 1 \<le> ti \<Longrightarrow> ti < t \<Longrightarrow> net x ti = net' x ti"
  shows "reconstruct_sequentially gab net noisy_image t vs sigma rng
           = reconstruct_sequentially gab net' noisy_image t vs sigma rng"
proof -
  have "for_loop (sequential_body net beta ab sg rng) (rev [1..t - 1]) st
          = for_loop (sequential_body net' beta ab sg rng) (rev [1..t - 1]) st" for beta ab sg st
    by (rule for_loop_cong, rule sequential_body_net_cong, rule assms) simp_all
  then show ?thesis
    by (simp add: reconstruct_sequentially_def)
qed

lemma get_alpha_bar_three_quarters3:
  "get_alpha_bar [3 / 4, 3 / 4, 3 / 4] = Inr [1, 1 / 4, 1 / 16, 1 / 64]"
  by (simp add: get_alpha_bar_def)

lemma upto_1_1: "rev [1..(2::int) - 1] = [1]"
  by (simp add: upto.simps)

text \<open>
  C6. The claim that \<open>reconstruct_sequentially\<close> applies the unit update at every timestep
  from \<open>start_t\<close> down to 1, \<open>start_t\<close> included, fails: with \<open>start_t = 2\<close> on the
  schedule \<open>[0.75, 0.75, 0.75]\<close> and the noisy image \<open>[0.25]\<close>, a predictor that returns ones
  at timestep 2 and zeros elsewhere gives \<open>[0.5]\<close>, the result of the single update at
  timestep 1 with zero noise, and the same as a predictor that returns zeros everywhere:
  the predictor is not invoked at timestep 2.
\<close>

theorem reconstruct_sequentially_start_not_visited:
  "reconstruct_sequentially get_alpha_bar (\<lambda>x ti. map (\<lambda>_. if ti = 2 then 1 else 0) x) [1 / 4] 2
     [3 / 4, 3 / 4, 3 / 4] SigmaNone rng = Inr [1 / 2] \<and>
   reconstruct_sequentially get_alpha_bar (\<lambda>x ti. map (\<lambda>_. 0) x) [1 / 4] 2
     [3 / 4, 3 / 4, 3 / 4] SigmaNone rng = Inr [1 / 2]"
proof -
  let ?ab = "[1, 1 / 4, 1 / 16, 1 / 64 :: real]"
  have body: "sequential_body net [3 / 4, 3 / 4, 3 / 4] ?ab [0, 0] rng 1
      \<lparr>x_cur = [1 / 4], t_tensor = None, n_draws = 0\<rparr>
      = Inr \<lparr>x_cur = [1 / 2], t_tensor = Some 1, n_draws = Suc 0\<rparr>"
    if "net [1 / 4] 1 = [0]" for net
    using that
    by (simp add: sequential_body_def unit_update_def getitem_def py_index_def tensor_sub_def randn_def sqrt_quarter)
  have sg: "default_sigma 2 SigmaNone = Inr [0, 0]"
    by (simp add: default_sigma_def numeral_2_eq_2)
  show ?thesis
    by (simp add: reconstruct_sequentially_def sg get_alpha_bar_three_quarters3 upto_1_1 body clip_def)
qed

section \<open>Sampling without noise injection\<close>

lemma default_sigma_zero:
  "zero_sigma sigma \<Longrightarrow> default_sigma t sigma = Inr sg \<Longrightarrow> list_all (\<lambda>s. s = 0) sg"
  by (cases sigma) (auto simp: zero_sigma_def default_sigma_def list_all_iff split: if_splits)

lemma getitem_in_set: "getitem xs i = Inr v \<Longrightarrow> v \<in> set xs"
  by (auto simp: getitem_def py_index_def split: if_splits)

lemma getitem_zero: "list_all (\<lambda>s. s = 0) sg \<Longrightarrow> getitem sg i = Inr s \<Longrightarrow> s = 0"
  by (auto simp: list_all_iff dest: getitem_in_set)

lemma length_randn [simp]: "length (randn rng k n) = n"
  by (simp add: randn_def)

lemma add_zero_noise: "length ys = n \<Longrightarrow> map2 (+) ys (map (\<lambda>z. 0) (randn rng k n)) = (ys :: real list)"
  by (rule nth_equalityI) simp_all

lemma tensor_sub_length: "tensor_sub e a b = Inr d \<Longrightarrow> length d = length a"
  by (auto simp: tensor_sub_def split: if_splits)

text \<open>With a sigma that is zero at every timestep the term \<open>sigma[ti]*torch.randn(x.shape)\<close>
  vanishes: the body of either loop is the deterministic update.\<close>

lemma reconstruct_body_zero_sigma:
  assumes "list_all (\<lambda>s. s = 0) sigma"
  shows "reconstruct_body net ab sigma t s ov rs rng i st =
     ebind (getitem ab (i * s)) (\<lambda>a_ti.
     ebind (getitem ab (i * s - s)) (\<lambda>a_prev.
     ebind (tensor_sub RuntimeError (x_cur st)
              (map (\<lambda>p. (1 + ov) * p * (1 - a_ti / a_prev) / sqrt (1 - a_ti)) (net (x_cur st) (i * s)))) (\<lambda>d.
     ebind (getitem sigma (i * s)) (\<lambda>sigma_ti.
     let x = map (\<lambda>v. v / sqrt (a_ti / a_prev)) d in
     ebind (if rs then setitem (reconstructions st) (t div s - i) (quantize (map (clip 0 1) x))
            else Inr (reconstructions st)) (\<lambda>recs.
     Inr (st\<lparr>x_cur := x, t_tensor := Some (i * s), n_draws := Suc (n_draws st),
              reconstructions := recs\<rparr>))))))"
proof -
  have "map2 (+) (map (\<lambda>v. v / c) d) (map (\<lambda>z. sigma_ti * z) (randn rng k (length (x_cur st))))
          = map (\<lambda>v. v / c) d"
    if "getitem sigma (i * s) = Inr sigma_ti" "tensor_sub e (x_cur st) b = Inr d" for sigma_ti d c k e b
    using getitem_zero [OF assms that(1)] tensor_sub_length [OF that(2)]
    by (simp add: add_zero_noise)
  then show ?thesis
    unfolding reconstruct_body_def strided_update_def Let_def
    by (auto simp: ebind_def split: sum.splits)
qed

lemma sequential_body_zero_sigma:
  assumes "list_all (\<lambda>s. s = 0) sigma"
  shows "sequential_body net beta ab sigma rng ti st =
     ebind (getitem beta ti) (\<lambda>beta_ti.
     ebind (getitem ab ti) (\<lambda>a_ti.
     ebind (tensor_sub RuntimeError (x_cur st)
              (map (\<lambda>p. p * beta_ti / sqrt (1 - a_ti)) (net (x_cur st) ti))) (\<lambda>d.
     ebind (getitem sigma ti) (\<lambda>sigma_ti.
     Inr (st\<lparr>x_cur := map (\<lambda>v. v / sqrt (1 - beta_ti)) d, t_tensor := Some ti,
              n_draws := Suc (n_draws st)\<rparr>)))))"
proof -
  have "map2 (+) (map (\<lambda>v. v / c) d) (map (\<lambda>z. sigma_ti * z) (randn rng k (length (x_cur st))))
          = map (\<lambda>v. v / c) d"
    if "getitem sigma ti = Inr sigma_ti" "tensor_sub e (x_cur st) b = Inr d" for sigma_ti d c k e b
    using getitem_zero [OF assms that(1)] tensor_sub_length [OF that(2)]
    by (simp add: add_zero_noise)
  then show ?thesis
    unfolding sequential_body_def unit_update_def Let_def
    by (auto simp: ebind_def split: sum.splits)
qed

lemma reconstruct_body_rng:
  assumes "list_all (\<lambda>s. s = 0) sigma"
  shows "reconstruct_body net ab sigma t s ov rs rng = reconstruct_body net ab sigma t s ov rs rng'"
  by (intro ext) (simp only: reconstruct_body_zero_sigma [OF assms])

lemma sequential_body_rng:
  assumes "list_all (\<lambda>s. s = 0) sigma"
  shows "sequential_body net beta ab sigma rng = sequential_body net beta ab sigma rng'"
  by (intro ext) (simp only: sequential_body_zero_sigma [OF assms])

lemma reconstruct_rng:
  assumes "zero_sigma sigma"
  shows "reconstruct gab net noisy_image t vs step_size overstep sigma return_sequences rng
       = reconstruct gab net noisy_image t vs step_size overstep sigma return_sequences rng'"
proof (cases "default_sigma t sigma")
  case (Inl e)
  then show ?thesis by (simp add: reconstruct_def)
next
  case (Inr sg)
  have "reconstruct_body net ab sg t s ov rs rng = reconstruct_body net ab sg t s ov rs rng'"
    for net ab t s ov rs
    by (rule reconstruct_body_rng [OF default_sigma_zero [OF assms Inr]])
  then show ?thesis
    by (simp add: reconstruct_def Inr)
qed

lemma reconstruct_sequentially_rng:
  assumes "zero_sigma sigma"
  shows "reconstruct_sequentially gab net noisy_image t vs sigma rng
       = reconstruct_sequentially gab net noisy_image t vs sigma rng'"
proof (cases "default_sigma t sigma")
  case (Inl e)
  then show ?thesis by (simp add: reconstruct_sequentially_def)
next
  case (Inr sg)
  have "sequential_body net beta ab sg rng = sequential_body net beta ab sg rng'" for net beta ab
    by (rule sequential_body_rng [OF default_sigma_zero [OF assms Inr]])
  then show ?thesis
    by (simp add: reconstruct_sequentially_def Inr)
qed

text \<open>
  C8. Zero-sigma sampling is deterministic: with a sigma that is identically zero, two
  calls of \<open>reconstruct\<close> (and two calls of \<open>reconstruct_sequentially\<close>) on the same
  predictor, noisy sample, timestep, schedule, step size and overstep give the same
  result, a returned value or an exception, whatever the random sources \<open>rng\<close> and \<open>rng'\<close>
  of the two calls draw.
\<close>

theorem zero_sigma_deterministic:
  assumes "zero_sigma sigma"
  shows "reconstruct gab net noisy_image t vs step_size overstep sigma return_sequences rng
           = reconstruct gab net noisy_image t vs step_size overstep sigma return_sequences rng' \<and>
         reconstruct_sequentially gab net noisy_image t vs sigma rng
           = reconstruct_sequentially gab net noisy_image t vs sigma rng'"
  using reconstruct_rng [OF assms] reconstruct_sequentially_rng [OF assms] by blast

theorem zero_sigma_deterministic_witness:
  "zero_sigma (SigmaScalar 0) \<and>
   reconstruct get_alpha_bar (\<lambda>x ti. x) [1 / 2] 3 [1 / 2, 1 / 2, 1 / 2] 1 (1 / 2) (SigmaScalar 0) True
       (\<lambda>k j. 1)
     = reconstruct get_alpha_bar (\<lambda>x ti. x) [1 / 2] 3 [1 / 2, 1 / 2, 1 / 2] 1 (1 / 2) (SigmaScalar 0) True
       (\<lambda>k j. 2) \<and>
   reconstruct_sequentially get_alpha_bar (\<lambda>x ti. x) [1 / 2] 3 [1 / 2, 1 / 2, 1 / 2] (SigmaScalar 0)
       (\<lambda>k j. 1)
     = reconstruct_sequentially get_alpha_bar (\<lambda>x ti. x) [1 / 2] 3 [1 / 2, 1 / 2, 1 / 2] (SigmaScalar 0)
       (\<lambda>k j. 2)"
  using zero_sigma_deterministic [of "SigmaScalar 0" get_alpha_bar "\<lambda>x ti. x" "[1 / 2]" 3
      "[1 / 2, 1 / 2, 1 / 2]" 1 "1 / 2" True "\<lambda>k j. 1" "\<lambda>k j. 2"]
  by (simp add: zero_sigma_def)

section \<open>Unit stride without overstep is the sequential sampler\<close>




lemma upto_1_2: "rev [1..(2::int)] = [2, 1]"
  by (simp add: upto.simps)







section \<open>Where the samplers raise an index error\<close>

text \<open>
  C7, as amended. The code has no check of the timestep against the schedule and no
  exception class of its own. \<open>reconstruct\<close> called with \<open>0 \<le> t < step_size\<close> allocates no
  frame, and writing the first frame raises Python's \<open>IndexError\<close>. The loop of
  \<open>reconstruct_sequentially\<close> looks \<open>beta\<close> up at the timesteps \<open>1 \<le> ti < t\<close> only: called with
  \<open>t \<le> 1\<close> it makes no lookup and raises no \<open>IndexError\<close>. Both hold whenever
  \<open>get_alpha_bar\<close> returns.
\<close>

theorem reconstruct_index_errors:
  assumes "gab vs = Inr ab"
  shows "(0 \<le> t \<and> t < step_size \<longrightarrow>
            reconstruct gab net noisy_image t vs step_size overstep sigma return_sequences rng
              = Inl IndexError) \<and>
         (t \<le> 1 \<longrightarrow> reconstruct_sequentially gab net noisy_image t vs sigma rng' \<noteq> Inl IndexError)"
proof (intro conjI impI)
  assume t: "0 \<le> t \<and> t < step_size"
  then obtain sg where sg: "default_sigma t sigma = Inr sg"
    by (cases sigma) (simp_all add: default_sigma_def)
  from t have "t div step_size = 0" "step_size \<noteq> 0"
    by simp_all
  then show "reconstruct gab net noisy_image t vs step_size overstep sigma return_sequences rng
      = Inl IndexError"
    by (simp add: reconstruct_def sg assms setitem_def py_index_def)
next
  assume t: "t \<le> 1"
  then have empty: "rev [1..t - 1] = []"
    by simp
  show "reconstruct_sequentially gab net noisy_image t vs sigma rng' \<noteq> Inl IndexError"
    by (cases sigma)
      (simp_all add: reconstruct_sequentially_def default_sigma_def assms empty)
qed

theorem reconstruct_index_errors_witness:
  "get_alpha_bar [3 / 4] = Inr [1, 1 / 4] \<and>
   reconstruct get_alpha_bar (\<lambda>x ti. x) [1 / 2] 1 [3 / 4] 2 (1 / 2) SigmaNone False (\<lambda>k j. 0)
     = Inl IndexError \<and>
   reconstruct_sequentially get_alpha_bar (\<lambda>x ti. x) [1 / 2] 1 [3 / 4] SigmaNone (\<lambda>k j. 0)
     \<noteq> Inl IndexError"
  using reconstruct_index_errors [of get_alpha_bar "[3 / 4]" "[1, 1 / 4]" 1 2 "\<lambda>x ti. x" "[1 / 2]"
      "1 / 2" SigmaNone False "\<lambda>k j. 0" "\<lambda>k j. 0"]
  by (simp add: get_alpha_bar_three_quarters)

text \<open>C7 as stated fails at the timestep 0: \<open>reconstruct_sequentially\<close> raises
  \<open>UnboundLocalError\<close> there, not an index error.\<close>

theorem reconstruct_sequentially_timestep_zero:
  "reconstruct_sequentially get_alpha_bar (\<lambda>x ti. x) [1 / 2] 0 [3 / 4] SigmaNone (\<lambda>k j. 0)
     = Inl UnboundLocalError \<and>
   reconstruct_sequentially get_alpha_bar (\<lambda>x ti. x) [1 / 2] 0 [3 / 4] SigmaNone (\<lambda>k j. 0)
     \<noteq> Inl IndexError"
  by (simp add: reconstruct_sequentially_def default_sigma_def get_alpha_bar_three_quarters)

section \<open>The frames of a trajectory\<close>

lemma uint_astype_uint8:
  "- (2 ^ 31) \<le> trunc r \<Longrightarrow> trunc r < 2 ^ 31 \<Longrightarrow> uint (astype_uint8 r) = trunc r mod 256"
  by (simp add: astype_uint8_def uint_word_of_int)

lemma astype_uint8_beyond: "trunc r < - (2 ^ 31) \<or> 2 ^ 31 \<le> trunc r \<Longrightarrow> astype_uint8 r = 0"
  by (auto simp: astype_uint8_def)

lemma uint_astype_uint8_clipped: "uint (astype_uint8 (clip 0 1 v * 255)) = \<lfloor>clip 0 1 v * 255\<rfloor>"
proof -
  let ?c = "clip 0 1 v * 255"
  have r: "0 \<le> ?c" "?c \<le> 255"
    using clip_range [of v] by simp_all
  then have "0 \<le> \<lfloor>?c\<rfloor>" "\<lfloor>?c\<rfloor> < 256"
    by (simp_all add: floor_less_iff)
  with r(1) show ?thesis
    by (simp add: uint_astype_uint8 trunc_def)
qed

lemma for_loop_append:
  "for_loop body (xs @ ys) st = ebind (for_loop body xs st) (for_loop body ys)"
  by (induction xs arbitrary: st) (simp_all add: ebind_def split: sum.splits)

lemma setitem_Inr:
  "setitem xs i v = Inr ys \<Longrightarrow> 0 \<le> i \<Longrightarrow> ys = xs[nat i := v] \<and> nat i < length xs"
  by (auto simp: setitem_def py_index_def split: if_splits)

lemma reconstruct_body_frames:
  assumes "reconstruct_body net ab sg t s ov True rng i st = Inr st'" and "0 \<le> t div s - i"
  shows "reconstructions st' =
           (reconstructions st)[nat (t div s - i) := quantize (map (clip 0 1) (x_cur st'))]
         \<and> nat (t div s - i) < length (reconstructions st)"
  using assms
  by (auto simp: reconstruct_body_def strided_update_def Let_def ebind_eq_Inr dest!: setitem_Inr)

lemma for_loop_frames_kept:
  assumes "for_loop (reconstruct_body net ab sg t s ov True rng) idxs st = Inr st'"
    and "\<And>i. i \<in> set idxs \<Longrightarrow> 0 \<le> t div s - i \<and> nat (t div s - i) \<noteq> p"
  shows "length (reconstructions st') = length (reconstructions st)
         \<and> reconstructions st' ! p = reconstructions st ! p"
  using assms
proof (induction idxs arbitrary: st)
  case Nil
  then show ?case by simp
next
  case (Cons i idxs)
  from Cons.prems(1) obtain st1 where
    b: "reconstruct_body net ab sg t s ov True rng i st = Inr st1"
    and l: "for_loop (reconstruct_body net ab sg t s ov True rng) idxs st1 = Inr st'"
    by (auto simp: ebind_eq_Inr)
  from Cons.prems(2) [of i] have i: "0 \<le> t div s - i" "nat (t div s - i) \<noteq> p"
    by simp_all
  from reconstruct_body_frames [OF b i(1)] i(2)
  have "length (reconstructions st1) = length (reconstructions st)"
    "reconstructions st1 ! p = reconstructions st ! p"
    by simp_all
  moreover from Cons.IH [OF l] Cons.prems(2)
  have "length (reconstructions st') = length (reconstructions st1)
         \<and> reconstructions st' ! p = reconstructions st1 ! p"
    by simp
  ultimately show ?case by simp
qed

lemma rev_upto_split:
  assumes "1 \<le> k" and "int k \<le> n - 1"
  shows "rev [1..n - 1] = (rev [n - int k + 1..n - 1] @ [n - int k]) @ rev [1..n - int k - 1]"
    and "take k (rev [1..n - 1]) = rev [n - int k + 1..n - 1] @ [n - int k]"
proof -
  have "[1..n - 1] = [1..n - int k - 1] @ (n - int k) # [n - int k + 1..n - 1]"
    using assms by (intro upto_split3) simp_all
  then show split: "rev [1..n - 1] = (rev [n - int k + 1..n - 1] @ [n - int k]) @ rev [1..n - int k - 1]"
    by simp
  have "length (rev [n - int k + 1..n - 1]) = k - 1"
    using assms by (simp add: nat_diff_distrib')
  with assms(1) show "take k (rev [1..n - 1]) = rev [n - int k + 1..n - 1] @ [n - int k]"
    by (simp add: split)
qed

text \<open>
  C9, as amended. When \<open>reconstruct\<close> returns a trajectory, it has \<open>t // step_size\<close> frames.
  Frame 0 is the noisy image times 255 cast to \<open>uint8\<close> with no clamping before: an entry
  whose truncated product is within the 32-bit signed range is stored as that product
  modulo 256, so a value outside \<open>[0, 1]\<close> wraps. Frame \<open>k \<ge> 1\<close> is the sample after the first
  \<open>k\<close> iterations of the loop, clamped to \<open>[0, 1]\<close> and then quantized the same way: its
  entries are \<open>floor(clip(x) * 255)\<close>, without wrapping.
\<close>

theorem reconstruct_trajectory_frames:
  assumes run: "reconstruct gab net noisy_image t vs s ov sigma True rng = Inr (Trajectory frames)"
  shows "\<exists>sg ab.
      default_sigma t sigma = Inr sg \<and> gab vs = Inr ab \<and>
      length frames = nat (t div s) \<and>
      frames ! 0 = map (\<lambda>v. astype_uint8 (v * 255)) noisy_image \<and>
      (\<forall>j < length noisy_image.
         - (2 ^ 31) \<le> trunc (noisy_image ! j * 255) \<and> trunc (noisy_image ! j * 255) < 2 ^ 31 \<longrightarrow>
         uint (frames ! 0 ! j) = trunc (noisy_image ! j * 255) mod 256) \<and>
      (\<forall>k. 1 \<le> k \<and> k < length frames \<longrightarrow>
         (\<exists>st. for_loop (reconstruct_body net ab sg t s ov True rng) (take k (rev [1..t div s - 1]))
                  \<lparr>x_cur = noisy_image, t_tensor = None, n_draws = 0,
                    reconstructions = map quantize
                      ((replicate (nat (t div s)) (replicate (length noisy_image) 0))[0 := noisy_image])\<rparr>
                = Inr st \<and>
               frames ! k = map (\<lambda>v. astype_uint8 (clip 0 1 v * 255)) (x_cur st) \<and>
               (\<forall>j < length (x_cur st).
                  uint (frames ! k ! j) = \<lfloor>clip 0 1 (x_cur st ! j) * 255\<rfloor>)))"
proof -
  let ?n = "t div s"
  let ?zeros = "replicate (nat ?n) (replicate (length noisy_image) (0::real))"
  let ?st0 = "\<lparr>x_cur = noisy_image, t_tensor = None, n_draws = 0,
                reconstructions = map quantize (?zeros[0 := noisy_image])\<rparr>"
  from run obtain sg ab st where sg: "default_sigma t sigma = Inr sg" and ab: "gab vs = Inr ab"
    and n: "0 < ?n"
    and loop: "for_loop (reconstruct_body net ab sg t s ov True rng) (rev [1..?n - 1]) ?st0 = Inr st"
    and frames: "frames = reconstructions st"
    by (auto simp: reconstruct_def ebind_eq_Inr setitem_def py_index_def first_frame
        split: if_splits option.splits)
  let ?body = "reconstruct_body net ab sg t s ov True rng"
  have kept0: "length (reconstructions st) = length (reconstructions ?st0)
      \<and> reconstructions st ! 0 = reconstructions ?st0 ! 0"
    by (rule for_loop_frames_kept [OF loop]) auto
  have len: "length frames = nat ?n"
    using kept0 by (simp add: frames)
  have first: "frames ! 0 = map (\<lambda>v. astype_uint8 (v * 255)) noisy_image"
    using kept0 n by (simp add: frames quantize_def nth_list_update)
  have wrapped: "\<forall>j < length noisy_image.
      - (2 ^ 31) \<le> trunc (noisy_image ! j * 255) \<and> trunc (noisy_image ! j * 255) < 2 ^ 31 \<longrightarrow>
      uint (frames ! 0 ! j) = trunc (noisy_image ! j * 255) mod 256"
    by (simp add: first uint_astype_uint8)
  have later: "\<exists>st'. for_loop ?body (take k (rev [1..?n - 1])) ?st0 = Inr st' \<and>
      frames ! k = map (\<lambda>v. astype_uint8 (clip 0 1 v * 255)) (x_cur st') \<and>
      (\<forall>j < length (x_cur st'). uint (frames ! k ! j) = \<lfloor>clip 0 1 (x_cur st' ! j) * 255\<rfloor>)"
    if k: "1 \<le> k" "k < length frames" for k
  proof -
    from k len have kn: "int k \<le> ?n - 1"
      by simp
    note split = rev_upto_split [OF k(1) kn]
    let ?pre = "rev [?n - int k + 1..?n - 1]"
    from loop obtain stk where
      pre: "for_loop ?body (?pre @ [?n - int k]) ?st0 = Inr stk"
      and post: "for_loop ?body (rev [1..?n - int k - 1]) stk = Inr st"
      unfolding split(1) for_loop_append by (auto simp: ebind_eq_Inr)
    from pre obtain stp where
      "for_loop ?body ?pre ?st0 = Inr stp" and last: "?body (?n - int k) stp = Inr stk"
      unfolding for_loop_append by (auto simp: ebind_eq_Inr)
    from reconstruct_body_frames [OF last]
    have w: "reconstructions stk = (reconstructions stp)[k := quantize (map (clip 0 1) (x_cur stk))]"
      "k < length (reconstructions stp)"
      by simp_all
    have away: "0 \<le> ?n - i \<and> nat (?n - i) \<noteq> k" if "i \<in> set (rev [1..?n - int k - 1])" for i
    proof -
      from that have "1 \<le> i" "i \<le> ?n - int k - 1"
        by simp_all
      then show ?thesis
        by (simp add: nat_eq_iff)
    qed
    have "length (reconstructions st) = length (reconstructions stk)
      \<and> reconstructions st ! k = reconstructions stk ! k"
      by (rule for_loop_frames_kept [OF post]) (rule away)
    with w have "frames ! k = quantize (map (clip 0 1) (x_cur stk))"
      by (simp add: frames)
    then have "frames ! k = map (\<lambda>v. astype_uint8 (clip 0 1 v * 255)) (x_cur stk)"
      by (simp add: quantize_def)
    moreover from this
    have "\<forall>j < length (x_cur stk). uint (frames ! k ! j) = \<lfloor>clip 0 1 (x_cur stk ! j) * 255\<rfloor>"
      by (simp add: uint_astype_uint8_clipped)
    ultimately show ?thesis
      using pre by (auto simp: split(2))
  qed
  from sg ab len first wrapped later show ?thesis
    by blast
qed

lemma trajectory_example:
  "reconstruct get_alpha_bar (\<lambda>x ti. map (\<lambda>_. 0) x) [2] 2 [3 / 4, 3 / 4] 1 (1 / 2) SigmaNone True
     (\<lambda>k j. 0) = Inr (Trajectory [[254], [255]])"
proof -
  have ab: "get_alpha_bar [3 / 4, 3 / 4] = Inr [1, 1 / 4, 1 / 16]"
    by (simp add: get_alpha_bar_def)
  have sg: "default_sigma 2 SigmaNone = Inr [0, 0]"
    by (simp add: default_sigma_def numeral_2_eq_2)
  have body: "reconstruct_body (\<lambda>x ti. map (\<lambda>_. 0) x) [1, 1 / 4, 1 / 16] [0, 0] 2 1 (1 / 2) True (\<lambda>k j. 0) 1
      \<lparr>x_cur = [2], t_tensor = None, n_draws = 0, reconstructions = [[254], [0]]\<rparr>
    = Inr \<lparr>x_cur = [4], t_tensor = Some 1, n_draws = Suc 0, reconstructions = [[254], [255]]\<rparr>"
    by (simp add: reconstruct_body_def strided_update_def getitem_def setitem_def py_index_def tensor_sub_def
        randn_def sqrt_quarter quantize_def clip_def astype_uint8_def trunc_def)
  have "replicate 2 x = [x, x]" for x :: "real list"
    by (simp add: numeral_2_eq_2)
  then have init: "map quantize ((replicate 2 [0])[0 := [2]]) = [[254], [0]]"
    by (simp add: quantize_def astype_uint8_def trunc_def)
  show ?thesis
    by (simp add: reconstruct_def ab sg setitem_def py_index_def upto_1_1 first_frame init body)
qed

theorem reconstruct_trajectory_frames_witness:
  "reconstruct get_alpha_bar (\<lambda>x ti. map (\<lambda>_. 0) x) [2] 2 [3 / 4, 3 / 4] 1 (1 / 2) SigmaNone True
     (\<lambda>k j. 0) = Inr (Trajectory [[254], [255]]) \<and>
   (\<exists>sg ab. default_sigma 2 SigmaNone = Inr sg \<and> get_alpha_bar [3 / 4, 3 / 4] = Inr ab \<and>
      length [[254], [255 :: 8 word]] = nat (2 div 1) \<and>
      [[254], [255 :: 8 word]] ! 0 = map (\<lambda>v. astype_uint8 (v * 255)) [2])"
  using trajectory_example
    reconstruct_trajectory_frames [of get_alpha_bar "\<lambda>x ti. map (\<lambda>_. 0) x" "[2]" 2 "[3 / 4, 3 / 4]" 1
      "1 / 2" SigmaNone "\<lambda>k j. 0" "[[254], [255]]"]
  by blast

text \<open>C9 as stated fails for a value whose product with 255 is beyond the 32-bit signed
  range: the entry \<open>8421505\<close> is stored as \<open>0\<close>, where wrapping modulo 256 gives \<open>127\<close>
  (\<open>8421505 * 255 = 2^31 + 127\<close>).\<close>

theorem reconstruct_first_frame_beyond_int32:
  "reconstruct get_alpha_bar (\<lambda>x ti. map (\<lambda>_. 0) x) [8421505] 2 [3 / 4, 3 / 4] 1 (1 / 2) SigmaNone True
     (\<lambda>k j. 0) = Inr (Trajectory [[0], [255]]) \<and>
   trunc (8421505 * 255) mod 256 = 127"
proof -
  have ab: "get_alpha_bar [3 / 4, 3 / 4] = Inr [1, 1 / 4, 1 / 16]"
    by (simp add: get_alpha_bar_def)
  have sg: "default_sigma 2 SigmaNone = Inr [0, 0]"
    by (simp add: default_sigma_def numeral_2_eq_2)
  have body: "reconstruct_body (\<lambda>x ti. map (\<lambda>_. 0) x) [1, 1 / 4, 1 / 16] [0, 0] 2 1 (1 / 2) True (\<lambda>k j. 0) 1
      \<lparr>x_cur = [8421505], t_tensor = None, n_draws = 0, reconstructions = [[0], [0]]\<rparr>
    = Inr \<lparr>x_cur = [16843010], t_tensor = Some 1, n_draws = Suc 0, reconstructions = [[0], [255]]\<rparr>"
    by (simp add: reconstruct_body_def strided_update_def getitem_def setitem_def py_index_def tensor_sub_def
        randn_def sqrt_quarter quantize_def clip_def astype_uint8_def trunc_def)
  have "replicate 2 x = [x, x]" for x :: "real list"
    by (simp add: numeral_2_eq_2)
  then have init: "map quantize ((replicate 2 [0])[0 := [8421505]]) = [[0], [0]]"
    by (simp add: quantize_def astype_uint8_def trunc_def)
  have "reconstruct get_alpha_bar (\<lambda>x ti. map (\<lambda>_. 0) x) [8421505] 2 [3 / 4, 3 / 4] 1 (1 / 2) SigmaNone True
     (\<lambda>k j. 0) = Inr (Trajectory [[0], [255]])"
    by (simp add: reconstruct_def ab sg setitem_def py_index_def upto_1_1 first_frame init body)
  moreover have "trunc (8421505 * 255) mod 256 = 127"
    by (simp add: trunc_def)
  ultimately show ?thesis by simp
qed

section \<open>The input array is not written\<close>

text \<open>A program of this language can write an array of the caller: the frame property below
  is one of the four operations, not of the language.\<close>

lemma store_frame_writes:
  "floats s a \<noteq> [] \<Longrightarrow> floats (snd (store_frame a 0 v s)) a = (floats s a)[0 := v]"
  by (simp add: store_frame_def setitem_def py_index_def)

lemma frame_refl: "frame s s"
  by (simp add: frame_def list_all_iff)

lemma keeps_weaken: "keeps I m Q \<Longrightarrow> (\<And>v. Q v \<Longrightarrow> R v) \<Longrightarrow> keeps I m R"
  by (simp add: keeps_def)

lemma keeps_pbind:
  assumes "keeps I m Q" and "\<And>v. Q v \<Longrightarrow> keeps I (f v) R"
  shows "keeps I (pbind m f) R"
  unfolding keeps_def
proof (intro allI impI)
  fix s assume s: "I s"
  obtain r s' where ms: "m s = (r, s')" by (cases "m s")
  with assms(1) s have s': "I s'" and q: "\<And>v. r = Inr v \<Longrightarrow> Q v"
    by (auto simp: keeps_def)
  show "I (snd (pbind m f s)) \<and> (\<forall>v. fst (pbind m f s) = Inr v \<longrightarrow> R v)"
  proof (cases r)
    case (Inl e)
    with ms s' show ?thesis by (simp add: pbind_def)
  next
    case (Inr v)
    with q have "keeps I (f v) R" by (intro assms(2)) simp
    with s' have "I (snd (f v s')) \<and> (\<forall>w. fst (f v s') = Inr w \<longrightarrow> R w)"
      by (simp add: keeps_def)
    with ms Inr show ?thesis by (simp add: pbind_def)
  qed
qed

lemma keeps_lift: "(\<And>v. r = Inr v \<Longrightarrow> Q v) \<Longrightarrow> keeps I (lift r) Q"
  by (simp add: keeps_def lift_def)

lemma keeps_raise: "keeps I (lift (Inl e)) Q"
  by (simp add: keeps_def lift_def)

lemma keeps_lift_any: "keeps I (lift r) (\<lambda>_. True)"
  by (simp add: keeps_def lift_def)

lemma keeps_load: "keeps I (load a) (\<lambda>_. True)"
  by (simp add: keeps_def load_def)

lemma keeps_load_image: "keeps I (load_image a) (\<lambda>_. True)"
  by (simp add: keeps_def load_image_def)

lemma keeps_new_floats: "keeps (framed s0 P) (new_floats v) (\<lambda>a. fresh s0 \<le> a)"
  by (auto simp: keeps_def new_floats_def framed_def frame_def list_all_iff)

lemma keeps_new_bytes: "keeps (framed s0 P) (new_bytes v) (\<lambda>a. fresh s0 \<le> a)"
  by (auto simp: keeps_def new_bytes_def framed_def frame_def list_all_iff)

lemma keeps_store_frame: "fresh s0 \<le> a \<Longrightarrow> keeps (framed s0 P) (store_frame a i v) (\<lambda>_. True)"
  by (auto simp: keeps_def store_frame_def framed_def frame_def list_all_iff split: sum.splits)

lemma keeps_store_byte_frame:
  "fresh s0 \<le> a \<Longrightarrow> keeps (framed s0 P) (store_byte_frame a i v) (\<lambda>_. True)"
  by (auto simp: keeps_def store_byte_frame_def framed_def frame_def list_all_iff split: sum.splits)

lemma keeps_tensor_of_array: "keeps (framed s0 P) (tensor_of_array shares a) (\<lambda>_. True)"
  unfolding tensor_of_array_def
  by (auto intro!: keeps_lift keeps_pbind [OF keeps_load] keeps_weaken [OF keeps_new_floats])

lemma keeps_pfor_loop:
  assumes "\<And>i v. keeps I (body i v) (\<lambda>_. True)"
  shows "keeps I (pfor_loop body idxs v) (\<lambda>_. True)"
proof (induction idxs arbitrary: v)
  case Nil
  show ?case by (simp add: keeps_lift)
next
  case (Cons i idxs)
  show ?case
    by (simp, rule keeps_pbind [OF assms]) (rule Cons.IH)
qed


lemma keeps_reconstruct_image_from_noise_h:
  "keeps (framed s0 P) (reconstruct_image_from_noise_h gab noisy_image noise t vs) (\<lambda>_. True)"
  unfolding reconstruct_image_from_noise_h_def
  by (intro keeps_pbind [OF keeps_load_image] keeps_pbind [OF keeps_lift_any]
      keeps_weaken [OF keeps_new_floats] TrueI)

lemma keeps_reconstruct_single_step_h:
  "keeps (framed s0 P) (reconstruct_single_step_h shares gab net noisy_image t vs) (\<lambda>_. True)"
  unfolding reconstruct_single_step_h_def
  by (intro keeps_pbind [OF keeps_tensor_of_array] keeps_pbind [OF keeps_load_image]
      keeps_pbind [OF keeps_lift_any] keeps_weaken [OF keeps_new_floats] TrueI)

text \<open>The operations, for a property \<open>P\<close> of the arrays that held the sample which still holds
  when a new array is added. \<open>x = ...\<close> follows the allocation of the update at once.\<close>

lemma keeps_assign_new:
  assumes grow: "\<And>h a. P h \<Longrightarrow> fresh s0 \<le> a \<Longrightarrow> P (h @ [a])"
    and rest: "\<And>a. fresh s0 \<le> a \<Longrightarrow> keeps (framed s0 P) (f a) R"
  shows "keeps (framed s0 P) (pbind (new_floats v) (\<lambda>a. pbind (assign_x a) (\<lambda>_. f a))) R"
  unfolding keeps_def
proof (intro allI impI)
  fix s assume s: "framed s0 P s"
  let ?s' = "s\<lparr>floats := (floats s)(fresh s := v), fresh := Suc (fresh s), held := held s @ [fresh s]\<rparr>"
  let ?m = "pbind (new_floats v) (\<lambda>a. pbind (assign_x a) (\<lambda>_. f a))"
  from s have a: "fresh s0 \<le> fresh s"
    by (simp add: framed_def frame_def)
  have run: "?m s = f (fresh s) ?s'"
    by (simp add: pbind_def new_floats_def assign_x_def)
  from s a grow [of "held s" "fresh s"] have "framed s0 P ?s'"
    by (auto simp: framed_def frame_def list_all_iff)
  with rest [OF a] show "framed s0 P (snd (?m s)) \<and> (\<forall>w. fst (?m s) = Inr w \<longrightarrow> R w)"
    unfolding run by (simp add: keeps_def)
qed

text \<open>The first binding of \<open>x\<close> in \<open>reconstruct_sequentially\<close>: the tensor of the input array.\<close>

lemma keeps_tensor_assign:
  assumes input: "a < fresh s0"
    and first: "\<And>h. shares \<Longrightarrow> P h \<Longrightarrow> P (h @ [a])"
    and grow: "\<And>h x. P h \<Longrightarrow> fresh s0 \<le> x \<Longrightarrow> P (h @ [x])"
    and rest: "\<And>x. keeps (framed s0 P) (f x) R"
  shows "keeps (framed s0 P) (pbind (tensor_of_array shares a) (\<lambda>x. pbind (assign_x x) (\<lambda>_. f x))) R"
  unfolding keeps_def
proof (intro allI impI)
  fix s assume s: "framed s0 P s"
  let ?m = "pbind (tensor_of_array shares a) (\<lambda>x. pbind (assign_x x) (\<lambda>_. f x))"
  from s have le: "fresh s0 \<le> fresh s"
    by (simp add: framed_def frame_def)
  define x where "x = (if shares then a else fresh s)"
  define s' where "s' = (if shares then s\<lparr>held := held s @ [x]\<rparr>
     else s\<lparr>floats := (floats s)(fresh s := floats s a), fresh := Suc (fresh s), held := held s @ [x]\<rparr>)"
  have run: "?m s = f x s'"
    by (simp add: pbind_def tensor_of_array_def lift_def load_def new_floats_def assign_x_def
        x_def s'_def)
  have "P (held s @ [x])"
    using s first [of "held s"] grow [of "held s" "fresh s"] le
    by (simp add: x_def framed_def)
  with s input le have "framed s0 P s'"
    by (auto simp: framed_def frame_def list_all_iff s'_def x_def)
  with rest [of x] show "framed s0 P (snd (?m s)) \<and> (\<forall>w. fst (?m s) = Inr w \<longrightarrow> R w)"
    unfolding run by (simp add: keeps_def)
qed

lemma keeps_reconstruct_body_h:
  assumes recs: "fresh s0 \<le> recs"
    and grow: "\<And>h a. P h \<Longrightarrow> fresh s0 \<le> a \<Longrightarrow> P (h @ [a])"
  shows "keeps (framed s0 P) (reconstruct_body_h net ab sg t s ov rs rng recs i v) (\<lambda>_. True)"
proof -
  have frame_write: "keeps (framed s0 P)
      (if rs then store_byte_frame recs (t div s - i) (quantize (map (clip 0 1) x')) else lift (Inr ()))
      (\<lambda>_. True)" for x'
    by (simp add: keeps_store_byte_frame [OF recs] keeps_lift_any)
  show ?thesis
    unfolding reconstruct_body_h_def
    by (intro keeps_pbind [OF keeps_load_image] keeps_pbind [OF keeps_lift_any]
        keeps_assign_new [of P, OF grow] keeps_pbind [OF frame_write] keeps_lift_any)
qed

lemma keeps_sequential_body_h:
  assumes grow: "\<And>h a. P h \<Longrightarrow> fresh s0 \<le> a \<Longrightarrow> P (h @ [a])"
  shows "keeps (framed s0 P) (sequential_body_h net beta ab sg rng ti v) (\<lambda>_. True)"
  unfolding sequential_body_h_def
  by (intro keeps_pbind [OF keeps_load_image] keeps_pbind [OF keeps_lift_any]
      keeps_assign_new [of P, OF grow] keeps_lift_any)

lemma keeps_reconstruct_h:
  assumes grow: "\<And>h a. P h \<Longrightarrow> fresh s0 \<le> a \<Longrightarrow> P (h @ [a])"
  shows "keeps (framed s0 P) (reconstruct_h gab net noisy_image t vs s ov sigma rs rng) (\<lambda>_. True)"
proof -
  have alloc: "keeps (framed s0 P)
      (if n < 0 then lift (Inl ValueError)
       else new_floats (replicate (nat n) (replicate (length image) 0)))
      (\<lambda>a. fresh s0 \<le> a)" for n :: int and image :: tensor
    by (simp add: keeps_raise keeps_new_floats)
  have finish: "keeps (framed s0 P)
      (case t_tensor_bound v of
         None \<Rightarrow> lift (Inl UnboundLocalError)
       | Some _ \<Rightarrow>
           (if rs then lift (Inr (TrajectoryAt recs))
            else pbind (load_image (x_ref v)) (\<lambda>xv.
                 pbind (new_floats [map (clip 0 1) xv]) (\<lambda>r. lift (Inr (SampleAt r))))))
      (\<lambda>_. True)" for v recs
    by (auto split: option.split
        intro!: keeps_raise keeps_lift_any keeps_pbind [OF keeps_load_image]
          keeps_pbind [OF keeps_new_floats])
  show ?thesis
    unfolding reconstruct_h_def
    by (intro keeps_pbind [OF keeps_lift_any] keeps_pbind [OF keeps_load_image] keeps_pbind [OF alloc]
        keeps_pbind [OF keeps_store_frame] keeps_pbind [OF keeps_load]
        keeps_assign_new [of P, OF grow] keeps_pbind [OF keeps_new_bytes]
        keeps_pbind [OF keeps_pfor_loop] keeps_reconstruct_body_h grow finish)
qed

lemma keeps_sequential_run:
  assumes grow: "\<And>h a. P h \<Longrightarrow> fresh s0 \<le> a \<Longrightarrow> P (h @ [a])"
  shows "keeps (framed s0 P)
      (pbind (pfor_loop (sequential_body_h net beta ab sg rng) idxs v0) (\<lambda>v.
         (case t_tensor_bound v of
            None \<Rightarrow> lift (Inl UnboundLocalError)
          | Some _ \<Rightarrow> pbind (load_image (x_ref v)) (\<lambda>xv. new_floats [map (clip 0 1) xv]))))
      (\<lambda>_. True)"
proof -
  have finish: "keeps (framed s0 P)
      (case t_tensor_bound v of
         None \<Rightarrow> lift (Inl UnboundLocalError)
       | Some _ \<Rightarrow> pbind (load_image (x_ref v)) (\<lambda>xv. new_floats [map (clip 0 1) xv]))
      (\<lambda>_. True)" for v
    by (auto split: option.split
        intro!: keeps_raise keeps_pbind [OF keeps_load_image] keeps_weaken [OF keeps_new_floats])
  show ?thesis
    by (intro keeps_pbind [OF keeps_pfor_loop] keeps_sequential_body_h grow finish)
qed

lemma keeps_reconstruct_sequentially_h:
  assumes input: "noisy_image < fresh s0"
    and first: "\<And>h. shares \<Longrightarrow> P h \<Longrightarrow> P (h @ [noisy_image])"
    and grow: "\<And>h a. P h \<Longrightarrow> fresh s0 \<le> a \<Longrightarrow> P (h @ [a])"
  shows "keeps (framed s0 P) (reconstruct_sequentially_h shares gab net noisy_image t vs sigma rng)
           (\<lambda>_. True)"
  unfolding reconstruct_sequentially_h_def
  by (intro keeps_pbind [OF keeps_lift_any] keeps_tensor_assign [of _ _ _ P] keeps_sequential_run
      input first grow)

lemma allocated_since_eq: "allocated_since s s' = (\<lambda>a. fresh s \<le> a \<and> a < fresh s')"
  by (rule ext) (simp add: allocated_since_def)

lemma framed_start: "held s = [] \<Longrightarrow> P [] \<Longrightarrow> framed s P s"
  by (simp add: framed_def frame_refl)

lemma framed_unchanged:
  assumes "keeps (framed s P) m Q" and "held s = []" and "P []" and "a < fresh s"
  shows "floats (snd (m s)) a = floats s a"
proof -
  from assms(1) framed_start [of s P, OF assms(2,3)] have "frame s (snd (m s))"
    by (simp add: keeps_def framed_def)
  with assms(4) show ?thesis
    by (simp add: frame_def list_all_iff)
qed

lemma framed_held:
  assumes "keeps (framed s P) m Q" and "held s = []" and "P []"
  shows "P (held (snd (m s))) \<and> list_all (\<lambda>a. a < fresh (snd (m s))) (held (snd (m s)))"
  using assms(1) framed_start [of s P, OF assms(2,3)] by (simp add: keeps_def framed_def)

lemma list_all_both: "list_all A xs \<Longrightarrow> list_all B xs \<Longrightarrow> list_all (\<lambda>a. A a \<and> B a) xs"
  by (simp add: list_all_iff)

lemma list_all_tl: "list_all A xs \<Longrightarrow> list_all A (tl xs)"
  by (cases xs) simp_all

text \<open>After the first binding of \<open>x\<close> in \<open>reconstruct_sequentially\<close>, which may be the input
  array, every binding is a new array.\<close>

lemma sequential_updates_new:
  assumes "noisy_image < fresh s" and "held s = []"
  shows "list_all
           (allocated_since s (snd (reconstruct_sequentially_h shares gab net noisy_image t vs sigma rng s)))
           (tl (held (snd (reconstruct_sequentially_h shares gab net noisy_image t vs sigma rng s))))"
proof (cases "default_sigma t sigma")
  case (Inl e)
  with assms show ?thesis
    by (simp add: reconstruct_sequentially_h_def pbind_def lift_def)
next
  case sg: (Inr sg)
  show ?thesis
  proof (cases "gab vs")
    case (Inl e)
    with sg assms show ?thesis
      by (simp add: reconstruct_sequentially_h_def pbind_def lift_def)
  next
    case ab: (Inr ab)
    let ?P = "\<lambda>h. h \<noteq> [] \<and> list_all (\<lambda>a. fresh s \<le> a) (tl h)"
    define x where "x = (if shares then noisy_image else fresh s)"
    define s2 where "s2 = (if shares then s\<lparr>held := [x]\<rparr>
       else s\<lparr>floats := (floats s)(fresh s := floats s noisy_image), fresh := Suc (fresh s),
               held := [x]\<rparr>)"
    let ?run = "pbind (pfor_loop (sequential_body_h net vs ab sg rng) (rev [1..t - 1])
                         \<lparr>x_ref = x, t_tensor_bound = None, drawn = 0\<rparr>) (\<lambda>v.
         (case t_tensor_bound v of
            None \<Rightarrow> lift (Inl UnboundLocalError)
          | Some _ \<Rightarrow> pbind (load_image (x_ref v)) (\<lambda>xv. new_floats [map (clip 0 1) xv])))"
    let ?s' = "snd (?run s2)"
    have unfold: "reconstruct_sequentially_h shares gab net noisy_image t vs sigma rng s = ?run s2"
      using assms(2)
      by (simp add: reconstruct_sequentially_h_def sg ab tensor_of_array_def pbind_def lift_def load_def
          new_floats_def assign_x_def x_def s2_def)
    have start: "framed s ?P s2"
      using assms(1) by (simp add: framed_def frame_def s2_def x_def list_all_iff)
    have "keeps (framed s ?P) ?run (\<lambda>_. True)"
      by (rule keeps_sequential_run) auto
    with start have "framed s ?P ?s'"
      by (simp add: keeps_def)
    then have "list_all (\<lambda>a. fresh s \<le> a) (tl (held ?s'))"
      and "list_all (\<lambda>a. a < fresh ?s') (tl (held ?s'))"
      by (simp_all add: framed_def list_all_tl)
    from list_all_both [OF this] show ?thesis
      by (simp add: unfold allocated_since_eq)
  qed
qed

text \<open>
  C10, as amended. No reconstruction operation writes to the input array of its caller:
  run on any store in which the noisy image exists and no sample has been assigned yet,
  \<open>reconstruct_image_from_noise\<close>, \<open>reconstruct_single_step\<close>, \<open>reconstruct\<close> and
  \<open>reconstruct_sequentially\<close> leave the contents of the input array as they were, whether
  they return or raise, and whether \<open>torch.Tensor\<close> shares the memory of the input or copies
  it. In \<open>reconstruct\<close> every array that holds the evolving sample is allocated by the call.
  In \<open>reconstruct_sequentially\<close> every array after the first is, and the first is when
  \<open>torch.Tensor\<close> copies.
\<close>

theorem input_unchanged_and_updates_new:
  assumes "noisy_image < fresh s" and "held s = []"
  shows "floats (snd (reconstruct_image_from_noise_h gab noisy_image noise t vs s)) noisy_image
           = floats s noisy_image \<and>
         floats (snd (reconstruct_single_step_h shares gab net noisy_image t vs s)) noisy_image
           = floats s noisy_image \<and>
         floats (snd (reconstruct_h gab net noisy_image t vs step_size overstep sigma return_sequences rng s))
           noisy_image = floats s noisy_image \<and>
         floats (snd (reconstruct_sequentially_h shares gab net noisy_image t vs sigma rng s)) noisy_image
           = floats s noisy_image \<and>
         list_all
           (allocated_since s
              (snd (reconstruct_h gab net noisy_image t vs step_size overstep sigma return_sequences rng s)))
           (held (snd (reconstruct_h gab net noisy_image t vs step_size overstep sigma return_sequences
                         rng s))) \<and>
         list_all
           (allocated_since s (snd (reconstruct_sequentially_h shares gab net noisy_image t vs sigma rng s)))
           (tl (held (snd (reconstruct_sequentially_h shares gab net noisy_image t vs sigma rng s)))) \<and>
         list_all
           (allocated_since s (snd (reconstruct_sequentially_h False gab net noisy_image t vs sigma rng s)))
           (held (snd (reconstruct_sequentially_h False gab net noisy_image t vs sigma rng s)))"
proof -
  let ?any = "\<lambda>h :: addr list. True"
  let ?new = "list_all (\<lambda>a. fresh s \<le> a)"
  note empty = assms(2)
  have "keeps (framed s ?new)
      (reconstruct_h gab net noisy_image t vs step_size overstep sigma return_sequences rng) (\<lambda>_. True)"
    by (rule keeps_reconstruct_h) simp
  from framed_unchanged [OF this empty _ assms(1)] framed_held [OF this empty]
  have strided: "floats (snd (reconstruct_h gab net noisy_image t vs step_size overstep sigma
        return_sequences rng s)) noisy_image = floats s noisy_image"
    "list_all
       (allocated_since s
          (snd (reconstruct_h gab net noisy_image t vs step_size overstep sigma return_sequences rng s)))
       (held (snd (reconstruct_h gab net noisy_image t vs step_size overstep sigma return_sequences
                     rng s)))"
    by (simp_all add: allocated_since_eq list_all_iff)
  have "keeps (framed s ?new)
      (reconstruct_sequentially_h False gab net noisy_image t vs sigma rng) (\<lambda>_. True)"
    by (rule keeps_reconstruct_sequentially_h [OF assms(1)]) simp_all
  from framed_held [OF this empty]
  have copy: "list_all
      (allocated_since s (snd (reconstruct_sequentially_h False gab net noisy_image t vs sigma rng s)))
      (held (snd (reconstruct_sequentially_h False gab net noisy_image t vs sigma rng s)))"
    by (simp add: allocated_since_eq list_all_iff)
  have "keeps (framed s ?any)
      (reconstruct_sequentially_h shares gab net noisy_image t vs sigma rng) (\<lambda>_. True)"
    by (rule keeps_reconstruct_sequentially_h [OF assms(1)]) simp_all
  note sequential = framed_unchanged [OF this empty TrueI assms(1)]
  note one_shot =
    framed_unchanged [OF keeps_reconstruct_image_from_noise_h [of s ?any] empty TrueI assms(1)]
    framed_unchanged [OF keeps_reconstruct_single_step_h [of s ?any] empty TrueI assms(1)]
  from one_shot strided sequential copy sequential_updates_new [OF assms]
  show ?thesis
    by simp
qed

subsection \<open>The programs on arrays compute what the operations compute\<close>

lemma pbind_lift [simp]: "pbind (lift r) f s = (case r of Inl e \<Rightarrow> (Inl e, s) | Inr v \<Rightarrow> f v s)"
  by (simp add: pbind_def lift_def split: sum.splits)

lemma pbind_load [simp]: "pbind (load a) f s = f (floats s a) s"
  by (simp add: pbind_def load_def)

lemma pbind_load_image [simp]: "pbind (load_image a) f s = f (image_at s a) s"
  by (simp add: pbind_def load_image_def)

lemma pbind_new_floats [simp]:
  "pbind (new_floats v) f s = f (fresh s) (s\<lparr>floats := (floats s)(fresh s := v), fresh := Suc (fresh s)\<rparr>)"
  by (simp add: pbind_def new_floats_def)

lemma pbind_new_bytes [simp]:
  "pbind (new_bytes v) f s = f (fresh s) (s\<lparr>bytes := (bytes s)(fresh s := v), fresh := Suc (fresh s)\<rparr>)"
  by (simp add: pbind_def new_bytes_def)

lemma pbind_store_frame [simp]:
  "pbind (store_frame a i v) f s =
     (case setitem (floats s a) i v of
        Inl e \<Rightarrow> (Inl e, s)
      | Inr fs \<Rightarrow> f () (s\<lparr>floats := (floats s)(a := fs)\<rparr>))"
  by (simp add: pbind_def store_frame_def split: sum.splits)

lemma pbind_store_byte_frame [simp]:
  "pbind (store_byte_frame a i v) f s =
     (case setitem (bytes s a) i v of
        Inl e \<Rightarrow> (Inl e, s)
      | Inr fs \<Rightarrow> f () (s\<lparr>bytes := (bytes s)(a := fs)\<rparr>))"
  by (simp add: pbind_def store_byte_frame_def split: sum.splits)

lemma pbind_assign_x [simp]: "pbind (assign_x a) f s = f () (s\<lparr>held := held s @ [a]\<rparr>)"
  by (simp add: pbind_def assign_x_def)

lemma pbind_assoc [simp]: "pbind (pbind m f) g = pbind m (\<lambda>v. pbind (f v) g)"
  by (rule ext) (simp add: pbind_def split: prod.splits sum.splits)

lemma pbind_if [simp]: "pbind (if c then m else m') f = (if c then pbind m f else pbind m' f)"
  by simp

lemma reconstruct_image_from_noise_h_result:
  "map_sum id (image_at (snd (reconstruct_image_from_noise_h gab noisy_image noise t vs s)))
     (fst (reconstruct_image_from_noise_h gab noisy_image noise t vs s))
   = reconstruct_image_from_noise gab (image_at s noisy_image) (image_at s noise) t vs"
  by (simp add: reconstruct_image_from_noise_h_def new_floats_def image_at_def split: sum.splits)

lemma reconstruct_single_step_h_result:
  "map_sum id (image_at (snd (reconstruct_single_step_h shares gab net noisy_image t vs s)))
     (fst (reconstruct_single_step_h shares gab net noisy_image t vs s))
   = reconstruct_single_step gab net (image_at s noisy_image) t vs"
  by (simp add: reconstruct_single_step_h_def reconstruct_single_step_def
      reconstruct_image_from_noise_def tensor_of_array_def new_floats_def image_at_def ebind_def
      split: sum.splits)


lemma reconstruct_body_h_result:
  assumes "same_state recs v s st"
  shows "case reconstruct_body_h net ab sg t step ov rs rng recs i v s of
           (Inl e, s') \<Rightarrow> reconstruct_body net ab sg t step ov rs rng i st = Inl e
         | (Inr v', s') \<Rightarrow>
             (\<exists>st'. reconstruct_body net ab sg t step ov rs rng i st = Inr st' \<and>
                    same_state recs v' s' st')"
  using assms
  by (auto simp: reconstruct_body_h_def reconstruct_body_def same_state_def lift_def image_at_def
      split: sum.splits)


lemma pfor_loop_reconstruct_result:
  assumes "same_state recs v s st"
  shows "case pfor_loop (reconstruct_body_h net ab sg t step ov rs rng recs) idxs v s of
           (Inl e, s') \<Rightarrow> for_loop (reconstruct_body net ab sg t step ov rs rng) idxs st = Inl e
         | (Inr v', s') \<Rightarrow>
             (\<exists>st'. for_loop (reconstruct_body net ab sg t step ov rs rng) idxs st = Inr st' \<and>
                    same_state recs v' s' st')"
  using assms
proof (induction idxs arbitrary: v s st)
  case Nil
  then show ?case by (simp add: lift_def)
next
  case (Cons i idxs)
  obtain r s1 where b: "reconstruct_body_h net ab sg t step ov rs rng recs i v s = (r, s1)"
    by (cases "reconstruct_body_h net ab sg t step ov rs rng recs i v s")
  show ?case
  proof (cases r)
    case (Inl e)
    with b reconstruct_body_h_result [OF Cons.prems, of net ab sg t step ov rs rng i]
    show ?thesis by (simp add: pbind_def)
  next
    case (Inr v1)
    with b reconstruct_body_h_result [OF Cons.prems, of net ab sg t step ov rs rng i]
    obtain st1 where st1: "reconstruct_body net ab sg t step ov rs rng i st = Inr st1"
      "same_state recs v1 s1 st1"
      by auto
    from Cons.IH [OF st1(2)] b Inr st1(1) show ?thesis
      by (auto simp: pbind_def split: prod.splits sum.splits)
  qed
qed

lemma sequential_body_h_result:
  assumes "same_sample v s st"
  shows "case sequential_body_h net beta ab sg rng ti v s of
           (Inl e, s') \<Rightarrow> sequential_body net beta ab sg rng ti st = Inl e
         | (Inr v', s') \<Rightarrow>
             (\<exists>st'. sequential_body net beta ab sg rng ti st = Inr st' \<and> same_sample v' s' st')"
  using assms
  by (auto simp: sequential_body_h_def sequential_body_def same_sample_def lift_def image_at_def
      split: sum.splits)

lemma pfor_loop_sequential_result:
  assumes "same_sample v s st"
  shows "case pfor_loop (sequential_body_h net beta ab sg rng) idxs v s of
           (Inl e, s') \<Rightarrow> for_loop (sequential_body net beta ab sg rng) idxs st = Inl e
         | (Inr v', s') \<Rightarrow>
             (\<exists>st'. for_loop (sequential_body net beta ab sg rng) idxs st = Inr st' \<and>
                    same_sample v' s' st')"
  using assms
proof (induction idxs arbitrary: v s st)
  case Nil
  then show ?case by (simp add: lift_def)
next
  case (Cons i idxs)
  obtain r s1 where b: "sequential_body_h net beta ab sg rng i v s = (r, s1)"
    by (cases "sequential_body_h net beta ab sg rng i v s")
  show ?case
  proof (cases r)
    case (Inl e)
    with b sequential_body_h_result [OF Cons.prems, of net beta ab sg rng i]
    show ?thesis by (simp add: pbind_def)
  next
    case (Inr v1)
    with b sequential_body_h_result [OF Cons.prems, of net beta ab sg rng i]
    obtain st1 where st1: "sequential_body net beta ab sg rng i st = Inr st1" "same_sample v1 s1 st1"
      by auto
    from Cons.IH [OF st1(2)] b Inr st1(1) show ?thesis
      by (auto simp: pbind_def split: prod.splits sum.splits)
  qed
qed

lemma reconstruct_sequentially_h_result:
  "map_sum id (image_at (snd (reconstruct_sequentially_h shares gab net noisy_image t vs sigma rng s)))
     (fst (reconstruct_sequentially_h shares gab net noisy_image t vs sigma rng s))
   = reconstruct_sequentially gab net (image_at s noisy_image) t vs sigma rng"
proof (cases "default_sigma t sigma")
  case (Inl e)
  then show ?thesis
    by (simp add: reconstruct_sequentially_h_def reconstruct_sequentially_def)
next
  case sg: (Inr sg)
  show ?thesis
  proof (cases "gab vs")
    case (Inl e)
    with sg show ?thesis
      by (simp add: reconstruct_sequentially_h_def reconstruct_sequentially_def)
  next
    case ab: (Inr ab)
    let ?st0 = "\<lparr>x_cur = image_at s noisy_image, t_tensor = None, n_draws = 0\<rparr>"
    define x s1 where "x = (if shares then noisy_image else fresh s)"
      and "s1 = (if shares then s\<lparr>held := held s @ [x]\<rparr>
                 else s\<lparr>floats := (floats s)(fresh s := floats s noisy_image), fresh := Suc (fresh s),
                         held := held s @ [x]\<rparr>)"
    let ?v0 = "\<lparr>x_ref = x, t_tensor_bound = None, drawn = 0\<rparr>"
    have init: "same_sample ?v0 s1 ?st0"
      by (simp add: same_sample_def x_def s1_def image_at_def)
    note loop = pfor_loop_sequential_result [OF init, of net vs ab sg rng "rev [1..t - 1]"]
    obtain r s2 where run: "pfor_loop (sequential_body_h net vs ab sg rng) (rev [1..t - 1]) ?v0 s1 = (r, s2)"
      by (cases "pfor_loop (sequential_body_h net vs ab sg rng) (rev [1..t - 1]) ?v0 s1")
    have unfold: "reconstruct_sequentially_h shares gab net noisy_image t vs sigma rng s
        = pbind (pfor_loop (sequential_body_h net vs ab sg rng) (rev [1..t - 1]) ?v0)
            (\<lambda>v. case t_tensor_bound v of
                    None \<Rightarrow> lift (Inl UnboundLocalError)
                  | Some _ \<Rightarrow> pbind (load_image (x_ref v)) (\<lambda>xv. new_floats [map (clip 0 1) xv])) s1"
      by (simp add: reconstruct_sequentially_h_def sg ab tensor_of_array_def x_def s1_def lift_def)
    show ?thesis
    proof (cases r)
      case (Inl e)
      with loop run show ?thesis
        by (simp add: unfold reconstruct_sequentially_def sg ab pbind_def)
    next
      case (Inr v')
      with loop run obtain st' where
        "for_loop (sequential_body net vs ab sg rng) (rev [1..t - 1]) ?st0 = Inr st'"
        "same_sample v' s2 st'"
        by auto
      with run Inr show ?thesis
        by (simp add: unfold reconstruct_sequentially_def sg ab pbind_def same_sample_def lift_def
            load_image_def new_floats_def image_at_def split: option.splits)
    qed
  qed
qed

lemma reconstruct_h_result:
  "map_sum id (result_at (snd (reconstruct_h gab net noisy_image t vs step ov sigma rs rng s)))
     (fst (reconstruct_h gab net noisy_image t vs step ov sigma rs rng s))
   = reconstruct gab net (image_at s noisy_image) t vs step ov sigma rs rng"
proof -
  let ?noisy = "image_at s noisy_image"
  let ?n = "t div step"
  let ?zeros = "replicate (nat ?n) (replicate (length ?noisy) (0::real))"
  consider (early) e where "default_sigma t sigma = Inl e \<or> gab vs = Inl e"
    | (zero) "step = 0" | (negative) "?n < 0" | (empty) "?n = 0" "step \<noteq> 0"
    | (run) sg ab where "default_sigma t sigma = Inr sg" "gab vs = Inr ab" "step \<noteq> 0" "0 < ?n"
    by (cases "default_sigma t sigma"; cases "gab vs") force+
  then show ?thesis
  proof cases
    case early
    then show ?thesis
      by (cases "default_sigma t sigma") (auto simp: reconstruct_h_def reconstruct_def)
  next
    case zero
    then show ?thesis
      by (cases "default_sigma t sigma"; cases "gab vs")
        (simp_all add: reconstruct_h_def reconstruct_def)
  next
    case negative
    then have "step \<noteq> 0" by auto
    with negative show ?thesis
      by (cases "default_sigma t sigma"; cases "gab vs")
        (simp_all add: reconstruct_h_def reconstruct_def lift_def)
  next
    case empty
    then show ?thesis
      by (cases "default_sigma t sigma"; cases "gab vs")
        (simp_all add: reconstruct_h_def reconstruct_def setitem_def py_index_def)
  next
    case run
    let ?fs = "?zeros[0 := ?noisy]"
    have set0: "setitem ?zeros 0 ?noisy = Inr ?fs"
      using run(4) by (simp add: setitem_def py_index_def)
    let ?st0 = "\<lparr>x_cur = concat (take 1 ?fs), t_tensor = None, n_draws = 0,
        reconstructions = map quantize ?fs\<rparr>"
    define s1 where "s1 = s\<lparr>floats := (floats s)(fresh s := ?fs, Suc (fresh s) := take 1 ?fs),
        held := held s @ [Suc (fresh s)],
        bytes := (bytes s)(Suc (Suc (fresh s)) := map quantize ?fs),
        fresh := Suc (Suc (Suc (fresh s)))\<rparr>"
    let ?recs = "Suc (Suc (fresh s))"
    let ?v0 = "\<lparr>x_ref = Suc (fresh s), t_tensor_bound = None, drawn = 0\<rparr>"
    have init: "same_state ?recs ?v0 s1 ?st0"
      by (simp add: same_state_def s1_def image_at_def)
    note loop = pfor_loop_reconstruct_result [OF init, of net ab sg t step ov rs rng "rev [1..?n - 1]"]
    obtain r s2 where
      go: "pfor_loop (reconstruct_body_h net ab sg t step ov rs rng ?recs) (rev [1..?n - 1]) ?v0 s1 = (r, s2)"
      by (cases "pfor_loop (reconstruct_body_h net ab sg t step ov rs rng ?recs) (rev [1..?n - 1]) ?v0 s1")
    have unfold: "reconstruct_h gab net noisy_image t vs step ov sigma rs rng s
        = pbind (pfor_loop (reconstruct_body_h net ab sg t step ov rs rng ?recs) (rev [1..?n - 1]) ?v0)
            (\<lambda>v. case t_tensor_bound v of
                    None \<Rightarrow> lift (Inl UnboundLocalError)
                  | Some _ \<Rightarrow>
                      (if rs then lift (Inr (TrajectoryAt ?recs))
                       else pbind (load_image (x_ref v)) (\<lambda>xv.
                            pbind (new_floats [map (clip 0 1) xv]) (\<lambda>r. lift (Inr (SampleAt r)))))) s1"
      using run by (simp add: reconstruct_h_def set0 s1_def cong: option.case_cong if_cong)
    have pure: "reconstruct gab net ?noisy t vs step ov sigma rs rng
        = ebind (for_loop (reconstruct_body net ab sg t step ov rs rng) (rev [1..?n - 1]) ?st0)
            (\<lambda>st. case t_tensor st of
                     None \<Rightarrow> Inl UnboundLocalError
                   | Some _ \<Rightarrow> Inr (if rs then Trajectory (reconstructions st)
                                     else Sample (map (clip 0 1) (x_cur st))))"
      using run by (simp add: reconstruct_def set0)
    show ?thesis
    proof (cases r)
      case (Inl e)
      with loop go show ?thesis
        by (simp add: unfold pure pbind_def)
    next
      case (Inr v')
      with loop go obtain st' where
        "for_loop (reconstruct_body net ab sg t step ov rs rng) (rev [1..?n - 1]) ?st0 = Inr st'"
        "same_state ?recs v' s2 st'"
        by auto
      with go Inr show ?thesis
        by (simp add: unfold pure [unfolded image_at_def] pbind_def same_state_def lift_def
            load_image_def new_floats_def image_at_def split: option.splits)
    qed
  qed
qed

subsection \<open>A run on one input array\<close>

lemma get_alpha_bar_halves: "get_alpha_bar [1 / 2, 1 / 2, 1 / 2] = Inr [1, 1 / 2, 1 / 4, 1 / 8]"
  by (simp add: get_alpha_bar_def)

lemma default_sigma_three: "default_sigma 3 SigmaNone = Inr [0, 0, 0]"
  by (simp add: default_sigma_def numeral_3_eq_3)

lemma strided_example_held:
  "held (snd (reconstruct_h get_alpha_bar (\<lambda>x ti. x) 0 3 [1 / 2, 1 / 2, 1 / 2] 1 (1 / 2) SigmaNone True
                (\<lambda>k j. 1)
                \<lparr>floats = (\<lambda>_. [[1 / 2]]), bytes = (\<lambda>_. []), fresh = 1, held = []\<rparr>))
     = [2, 4, 5]"
  by (simp add: reconstruct_h_def get_alpha_bar_halves default_sigma_three upto_1_2
      reconstruct_body_h_def strided_update_def getitem_def setitem_def py_index_def
      tensor_sub_def randn_def image_at_def new_floats_def lift_def eval_nat_numeral)


theorem input_unchanged_and_updates_new_witness:
  "(0::nat) < fresh \<lparr>floats = (\<lambda>_. [[1 / 2]]), bytes = (\<lambda>_. []), fresh = 1, held = []\<rparr> \<and>
   held \<lparr>floats = (\<lambda>_. [[1 / 2 :: real]]), bytes = (\<lambda>_. []), fresh = 1, held = []\<rparr> = [] \<and>
   floats (snd (reconstruct_h get_alpha_bar (\<lambda>x ti. x) 0 3 [1 / 2, 1 / 2, 1 / 2] 1 (1 / 2) SigmaNone True
                  (\<lambda>k j. 1)
                  \<lparr>floats = (\<lambda>_. [[1 / 2]]), bytes = (\<lambda>_. []), fresh = 1, held = []\<rparr>))
     0 = [[1 / 2]] \<and>
   held (snd (reconstruct_h get_alpha_bar (\<lambda>x ti. x) 0 3 [1 / 2, 1 / 2, 1 / 2] 1 (1 / 2) SigmaNone True
                (\<lambda>k j. 1)
                \<lparr>floats = (\<lambda>_. [[1 / 2]]), bytes = (\<lambda>_. []), fresh = 1, held = []\<rparr>))
     = [2, 4, 5] \<and>
   list_all
     (allocated_since \<lparr>floats = (\<lambda>_. [[1 / 2]]), bytes = (\<lambda>_. []), fresh = 1, held = []\<rparr>
        (snd (reconstruct_h get_alpha_bar (\<lambda>x ti. x) 0 3 [1 / 2, 1 / 2, 1 / 2] 1 (1 / 2) SigmaNone True
                (\<lambda>k j. 1)
                \<lparr>floats = (\<lambda>_. [[1 / 2]]), bytes = (\<lambda>_. []), fresh = 1, held = []\<rparr>)))
     [2, 4, 5] \<and>
   floats (snd (reconstruct_sequentially_h True get_alpha_bar (\<lambda>x ti. x) 0 3 [1 / 2, 1 / 2, 1 / 2]
                  SigmaNone (\<lambda>k j. 1)
                  \<lparr>floats = (\<lambda>_. [[1 / 2]]), bytes = (\<lambda>_. []), fresh = 1, held = []\<rparr>))
     0 = [[1 / 2]] \<and>
   list_all
     (allocated_since \<lparr>floats = (\<lambda>_. [[1 / 2]]), bytes = (\<lambda>_. []), fresh = 1, held = []\<rparr>
        (snd (reconstruct_sequentially_h True get_alpha_bar (\<lambda>x ti. x) 0 3 [1 / 2, 1 / 2, 1 / 2]
                SigmaNone (\<lambda>k j. 1)
                \<lparr>floats = (\<lambda>_. [[1 / 2]]), bytes = (\<lambda>_. []), fresh = 1, held = []\<rparr>)))
     (tl (held (snd (reconstruct_sequentially_h True get_alpha_bar (\<lambda>x ti. x) 0 3 [1 / 2, 1 / 2, 1 / 2]
                       SigmaNone (\<lambda>k j. 1)
                       \<lparr>floats = (\<lambda>_. [[1 / 2]]), bytes = (\<lambda>_. []), fresh = 1, held = []\<rparr>))))"
  using input_unchanged_and_updates_new
    [of 0 "\<lparr>floats = (\<lambda>_. [[1 / 2]]), bytes = (\<lambda>_. []), fresh = 1, held = []\<rparr>"
      get_alpha_bar 0 3 "[1 / 2, 1 / 2, 1 / 2]" True "\<lambda>x ti. x" 1 "1 / 2" SigmaNone True "\<lambda>k j. 1"]
    strided_example_held
  by simp

text \<open>C10 as stated fails in \<open>reconstruct_sequentially\<close> when \<open>torch.Tensor\<close> shares the memory
  of the input: called on the input array at address 0, the only array of the caller, the
  sample is first held in that array, and then in the new arrays 1 and 2.\<close>

theorem sequential_sample_held_in_input:
  "(0::nat) < fresh \<lparr>floats = (\<lambda>_. [[1 / 2]]), bytes = (\<lambda>_. []), fresh = 1, held = []\<rparr> \<and>
   held (snd (reconstruct_sequentially_h True get_alpha_bar (\<lambda>x ti. x) 0 3 [1 / 2, 1 / 2, 1 / 2]
                SigmaNone (\<lambda>k j. 1)
                \<lparr>floats = (\<lambda>_. [[1 / 2]]), bytes = (\<lambda>_. []), fresh = 1, held = []\<rparr>))
     = [0, 1, 2]"
  by (simp add: reconstruct_sequentially_h_def get_alpha_bar_halves default_sigma_three upto_1_2
      tensor_of_array_def sequential_body_h_def unit_update_def getitem_def py_index_def
      tensor_sub_def randn_def image_at_def new_floats_def)

end
